theory Spec2Isabelle
  imports Complex_Main
begin

section \<open>The Anova monitor of \<open>homeassistant/components/anova/climate.py\<close>\<close>

text \<open>
  The module keeps the state of one sous-vide device in a dictionary \<open>data\<close> with string
  keys, written by the thread \<open>AnovaMonitor.run\<close> and by the \<open>request_set_*\<close> methods that
  other threads call. The embedding follows the module: the dictionary is a function from
  key strings to Python values, every method is a function on a record of the monitor's
  attributes, an exception is a branch of a result type, and the thread is a step function.
  Each step of the thread holds at most one call of the device client, and the two
  statements of the idle branch (\<open>clear\<close>, then \<open>wait\<close>) are steps of their own; the
  calls that other threads make are interleaved between the steps.
\<close>

subsection \<open>Python values\<close>

text \<open>
  The values stored in \<open>data\<close> are \<open>None\<close>, the two booleans, strings and floats. Of a float
  the module uses only \<open>==\<close>, \<open>str\<close> and (to build one) \<open>float\<close>, so the type of floats is a
  type variable and the two builtins are arguments \<open>str_of\<close> and \<open>float_of\<close> of the functions
  that call them (\<open>float_of\<close> gives \<open>None\<close> where \<open>float\<close> raises). Python's \<open>!=\<close>
  is HOL's inequality on these values (which is what Python does for every float but NaN).
\<close>

datatype 'f pyval = PyNone | PyBool bool | PyStr string | PyFloat 'f

subsection \<open>Module constants\<close>

text \<open>
  Lines 41 to 78. The names imported from \<open>homeassistant.const\<close>,
  \<open>homeassistant.components.climate.const\<close> and \<open>pyanova\<close> carry the values they have in
  those packages; the degree sign of the two temperature units is the character U+00B0.
  The three \<open>ATTR_CTL_*\<close> strings are written in the source without the \<open>f\<close> prefix, so
  they are the literal texts with the braces.
\<close>

definition HVAC_MODE_HEAT :: string where "HVAC_MODE_HEAT = ''heat''"
definition HVAC_MODE_OFF :: string where "HVAC_MODE_OFF = ''off''"
definition TEMP_CELSIUS :: string where "TEMP_CELSIUS = [CHR 0xB0, CHR ''C'']"
definition TEMP_FAHRENHEIT :: string where "TEMP_FAHRENHEIT = [CHR 0xB0, CHR ''F'']"
definition CTL_START :: string where "CTL_START = ''start''"
definition CTL_STOP :: string where "CTL_STOP = ''stop''"

definition ATTR_CURRENT_TEMPERATURE :: string where
  "ATTR_CURRENT_TEMPERATURE = ''current_temperature''"
definition ATTR_HVAC_MODE :: string where "ATTR_HVAC_MODE = ''hvac_mode''"
definition CONF_MAC :: string where "CONF_MAC = ''mac''"
definition CONF_NAME :: string where "CONF_NAME = ''name''"
definition CONF_TEMPERATURE_UNIT :: string where
  "CONF_TEMPERATURE_UNIT = ''temperature_unit''"

abbreviation ATTR_NAME :: string where "ATTR_NAME \<equiv> CONF_NAME"
abbreviation ATTR_MAC :: string where "ATTR_MAC \<equiv> CONF_MAC"
abbreviation ATTR_TEMPERATURE_UNIT :: string where
  "ATTR_TEMPERATURE_UNIT \<equiv> CONF_TEMPERATURE_UNIT"

definition ATTR_TARGET_TEMPERATURE :: string where
  "ATTR_TARGET_TEMPERATURE = ''target_temperature''"
definition ATTR_AVAILABLE :: string where "ATTR_AVAILABLE = ''available''"
definition ANOVA_STATE_RUNNING :: string where "ANOVA_STATE_RUNNING = ''running''"
definition ANOVA_STATE_STOPPED :: string where "ANOVA_STATE_STOPPED = ''stopped''"
definition ANOVA_TEMP_CELCIUS :: string where "ANOVA_TEMP_CELCIUS = ''c''"
definition ANOVA_TEMP_FAHRENHEIT :: string where "ANOVA_TEMP_FAHRENHEIT = ''f''"

definition MON_GET_TEMPERATURE_UNIT :: nat where "MON_GET_TEMPERATURE_UNIT = 1"
definition MON_GET_STATUS :: nat where "MON_GET_STATUS = 2"
definition MON_GET_CURRENT_TEMPERATURE :: nat where "MON_GET_CURRENT_TEMPERATURE = 3"
definition MON_GET_TARGET_TEMPERATURE :: nat where "MON_GET_TARGET_TEMPERATURE = 4"
definition MON_IDLE :: nat where "MON_IDLE = 5"

definition ATTR_CTL_HVAC_MODE :: string where
  "ATTR_CTL_HVAC_MODE = ''{CTL}_{ATTR_HVAC_MODE}''"
definition ATTR_CTL_TARGET_TEMPERATURE :: string where
  "ATTR_CTL_TARGET_TEMPERATURE = ''{CTL}_{ATTR_TARGET_TEMPERATURE}''"
definition ATTR_CTL_TEMPERATURE_UNIT :: string where
  "ATTR_CTL_TEMPERATURE_UNIT = ''{CTL}_{ATTR_TEMPERATURE_UNIT}''"

lemmas key_defs =
  ATTR_CURRENT_TEMPERATURE_def ATTR_HVAC_MODE_def CONF_MAC_def CONF_NAME_def
  CONF_TEMPERATURE_UNIT_def ATTR_TARGET_TEMPERATURE_def ATTR_AVAILABLE_def
  ATTR_CTL_HVAC_MODE_def ATTR_CTL_TARGET_TEMPERATURE_def ATTR_CTL_TEMPERATURE_UNIT_def

lemmas mon_defs =
  MON_GET_TEMPERATURE_UNIT_def MON_GET_STATUS_def MON_GET_CURRENT_TEMPERATURE_def
  MON_GET_TARGET_TEMPERATURE_def MON_IDLE_def

subsection \<open>Exceptions, device calls and what the outside sees\<close>

text \<open>
  The exception classes are those the \<open>except\<close> clauses of \<open>run\<close> tell apart (lines 445 to
  455); \<open>OtherException\<close> is any other subclass of \<open>Exception\<close>.
\<close>

datatype exc =
  ExceptionPexpect | NotConnectedError | NotificationTimeout | RuntimeError | OtherException

text \<open>
  The device client (\<open>PyAnova\<close>) is not part of the module. A call to it either returns a
  response string or raises; what it does is an input of the model.
\<close>

datatype reply = Reply string | Fault exc

datatype 'f device_call =
  Dev_connect_device
  | Dev_get_unit
  | Dev_set_unit string
  | Dev_get_status
  | Dev_get_current_temperature
  | Dev_get_target_temperature
  | Dev_start_anova
  | Dev_stop_anova
  | Dev_set_temperature "'f pyval"
  | Dev_disconnect

datatype level = Debug | Warn | Error

text \<open>
  The effects the module has on its surroundings, in the order they happen: a call of the
  observer \<open>data_handler\<close>, a line written to the logger, a call of the device client.
\<close>

datatype 'f event = Notify | Log level | Call "'f device_call"

datatype 'a result = Returns 'a | Raises exc 'a

text \<open>
  Where the thread \<open>run\<close> stands: before line 367, at the test of the outer loop (line 371),
  at the test of the inner loop (line 400), before \<open>command_event.clear()\<close> (line 442), in
  \<open>command_event.wait\<close> (line 443), before the \<open>finally\<close> block (line 456; the flag says
  that it was entered by the \<open>break\<close> of line 444), and after the method has returned.
\<close>

datatype label =
  At_start | At_outer | At_inner | At_clear | At_wait | At_finally bool | Exited

subsection \<open>The monitor object\<close>

text \<open>
  The attributes of \<open>AnovaMonitor\<close> (lines 232 to 244): \<open>data\<close>, \<open>keep_going\<close>, the flag of
  the \<open>threading.Event\<close> \<open>command_event\<close>, and \<open>device\<close> (true for a \<open>PyAnova\<close> object,
  false for \<open>None\<close>). \<open>next_command\<close> is the local variable of \<open>run\<close> and \<open>pc\<close> its
  control point. \<open>trace\<close> collects the events. The dictionary is created with its ten keys
  by \<open>setup_platform\<close> and no key is added or removed afterwards, so it is a total
  function on keys. The attribute \<open>current_cmd\<close> (line 461) is written and never read and
  is left out, as are the three timeouts, which are passed to the device client only.
\<close>

record 'f monitor =
  data :: "string \<Rightarrow> 'f pyval"
  keep_going :: bool
  command_event :: bool
  device :: bool
  next_command :: nat
  pc :: label
  trace :: "'f event list"

definition data_handler :: "'f monitor \<Rightarrow> 'f monitor" where
  "data_handler m = m\<lparr>trace := trace m @ [Notify]\<rparr>"

definition logger :: "level \<Rightarrow> 'f monitor \<Rightarrow> 'f monitor" where
  "logger l m = m\<lparr>trace := trace m @ [Log l]\<rparr>"

definition store :: "string \<Rightarrow> 'f pyval \<Rightarrow> 'f monitor \<Rightarrow> 'f monitor" where
  "store key v m = m\<lparr>data := (data m)(key := v)\<rparr>"

text \<open>
  A call of the device client: the call is recorded, then it raises or its response is
  handed to the rest of the method.
\<close>

definition device_request ::
  "'f device_call \<Rightarrow> reply \<Rightarrow> (string \<Rightarrow> 'f monitor \<Rightarrow> 'f monitor) \<Rightarrow> 'f monitor
    \<Rightarrow> 'f monitor result" where
  "device_request c r rest m =
     (let m1 = m\<lparr>trace := trace m @ [Call c]\<rparr>
      in case r of Fault e \<Rightarrow> Raises e m1 | Reply rsp \<Rightarrow> Returns (rest rsp m1))"

subsection \<open>Processing a response (lines 249 to 269)\<close>

definition process_response :: "'f pyval \<Rightarrow> string \<Rightarrow> 'f monitor \<Rightarrow> 'f monitor" where
  "process_response v key m =
     (if v = PyNone then logger Warn m
      else if v \<noteq> data m key then
        (let m1 = store key v m
         in if data m1 ATTR_AVAILABLE = PyBool True then data_handler m1 else m1)
      else m)"

definition handle_map :: "string \<Rightarrow> (string \<rightharpoonup> 'f pyval) \<Rightarrow> 'f pyval" where
  "handle_map rsp vals = (case vals rsp of Some v \<Rightarrow> v | None \<Rightarrow> PyNone)"

definition handle_float :: "(string \<Rightarrow> 'f option) \<Rightarrow> string \<Rightarrow> 'f pyval" where
  "handle_float float_of rsp = (case float_of rsp of Some x \<Rightarrow> PyFloat x | None \<Rightarrow> PyNone)"

definition TEMP_MAP :: "string \<rightharpoonup> 'f pyval" where
  "TEMP_MAP = [ANOVA_TEMP_CELCIUS \<mapsto> PyStr TEMP_CELSIUS,
               ANOVA_TEMP_FAHRENHEIT \<mapsto> PyStr TEMP_FAHRENHEIT]"

definition CTL_MAP :: "string \<rightharpoonup> 'f pyval" where
  "CTL_MAP = [CTL_START \<mapsto> PyStr HVAC_MODE_HEAT, CTL_STOP \<mapsto> PyStr HVAC_MODE_OFF]"

subsection \<open>The device methods (lines 271 to 343)\<close>

definition get_temperature_unit :: "reply \<Rightarrow> 'f monitor \<Rightarrow> 'f monitor result" where
  "get_temperature_unit r =
     device_request Dev_get_unit r (\<lambda>rsp.
       process_response
         (handle_map rsp [ANOVA_TEMP_CELCIUS \<mapsto> PyStr TEMP_CELSIUS,
                          ANOVA_TEMP_FAHRENHEIT \<mapsto> PyStr TEMP_FAHRENHEIT])
         CONF_TEMPERATURE_UNIT)"

definition set_temperature_unit :: "string \<Rightarrow> reply \<Rightarrow> 'f monitor \<Rightarrow> 'f monitor result" where
  "set_temperature_unit unit r =
     device_request (Dev_set_unit unit) r (\<lambda>rsp.
       process_response (handle_map rsp TEMP_MAP) CONF_TEMPERATURE_UNIT)"

definition get_status :: "reply \<Rightarrow> 'f monitor \<Rightarrow> 'f monitor result" where
  "get_status r =
     device_request Dev_get_status r (\<lambda>rsp.
       process_response
         (handle_map rsp [ANOVA_STATE_RUNNING \<mapsto> PyStr HVAC_MODE_HEAT,
                          ANOVA_STATE_STOPPED \<mapsto> PyStr HVAC_MODE_OFF])
         ATTR_HVAC_MODE)"

definition get_current_temperature ::
  "(string \<Rightarrow> 'f option) \<Rightarrow> reply \<Rightarrow> 'f monitor \<Rightarrow> 'f monitor result" where
  "get_current_temperature float_of r =
     device_request Dev_get_current_temperature r (\<lambda>rsp.
       process_response (handle_float float_of rsp) ATTR_CURRENT_TEMPERATURE)"

definition get_target_temperature ::
  "(string \<Rightarrow> 'f option) \<Rightarrow> reply \<Rightarrow> 'f monitor \<Rightarrow> 'f monitor result" where
  "get_target_temperature float_of r =
     device_request Dev_get_target_temperature r (\<lambda>rsp.
       process_response (handle_float float_of rsp) ATTR_TARGET_TEMPERATURE)"

definition send_start :: "bool \<Rightarrow> reply \<Rightarrow> 'f monitor \<Rightarrow> 'f monitor result" where
  "send_start start r =
     device_request (if start then Dev_start_anova else Dev_stop_anova) r (\<lambda>rsp.
       process_response (handle_map rsp CTL_MAP) ATTR_HVAC_MODE)"

text \<open>
  \<open>set_target_temperature\<close> is called with whatever \<open>data\<close> holds under the pending key, so
  its argument is a Python value and \<open>str_of\<close> is the builtin \<open>str\<close> on values.
\<close>

definition set_target_temperature ::
  "('f pyval \<Rightarrow> string) \<Rightarrow> 'f pyval \<Rightarrow> reply \<Rightarrow> 'f monitor \<Rightarrow> 'f monitor result" where
  "set_target_temperature str_of temperature r =
     device_request (Dev_set_temperature temperature) r (\<lambda>rsp.
       process_response (handle_map rsp [str_of temperature \<mapsto> temperature])
         ATTR_TARGET_TEMPERATURE)"

subsection \<open>The requests of other threads (lines 345 to 362, 469 to 474)\<close>

definition request_set_hvac_mode :: "string \<Rightarrow> 'f monitor \<Rightarrow> 'f monitor" where
  "request_set_hvac_mode hvac_mode m =
     data_handler
       ((store ATTR_HVAC_MODE (PyStr hvac_mode)
          (store ATTR_CTL_HVAC_MODE (PyStr hvac_mode) m))\<lparr>command_event := True\<rparr>)"

definition request_set_temperature :: "'f \<Rightarrow> 'f monitor \<Rightarrow> 'f monitor" where
  "request_set_temperature temperature m =
     data_handler
       ((store ATTR_TARGET_TEMPERATURE (PyFloat temperature)
          (store ATTR_CTL_TARGET_TEMPERATURE (PyFloat temperature) m))\<lparr>command_event := True\<rparr>)"

definition request_set_temperature_unit :: "string \<Rightarrow> 'f monitor \<Rightarrow> 'f monitor" where
  "request_set_temperature_unit unit m =
     (if PyStr unit \<noteq> data m CONF_TEMPERATURE_UNIT then
        data_handler
          ((store ATTR_TEMPERATURE_UNIT (PyStr unit)
             (store ATTR_CTL_TEMPERATURE_UNIT (PyStr unit) m))\<lparr>command_event := True\<rparr>)
      else m)"

text \<open>
  \<open>terminate\<close> then joins the thread: the caller waits until \<open>run\<close> has returned, which
  changes nothing in the monitor.
\<close>

definition terminate :: "'f monitor \<Rightarrow> 'f monitor" where
  "terminate m = m\<lparr>keep_going := False, command_event := True\<rparr>"

subsection \<open>Creation (lines 98 to 111 and 232 to 244)\<close>

definition AnovaMonitor :: "(string \<Rightarrow> 'f pyval) \<Rightarrow> 'f monitor" where
  "AnovaMonitor d =
     \<lparr>data = d, keep_going = True, command_event = False, device = False,
      next_command = 0, pc = At_start, trace = []\<rparr>"

text \<open>
  \<open>name\<close> and \<open>mac\<close> come from the configuration, \<open>temperature_unit\<close> is
  \<open>hass.config.units.temperature_unit\<close>.
\<close>

definition setup_data :: "string \<Rightarrow> string \<Rightarrow> string \<Rightarrow> string \<Rightarrow> 'f pyval" where
  "setup_data name mac temperature_unit =
     (\<lambda>_. PyNone)
       (ATTR_NAME := PyStr name,
        ATTR_MAC := PyStr mac,
        ATTR_AVAILABLE := PyBool False,
        ATTR_CURRENT_TEMPERATURE := PyNone,
        ATTR_CTL_HVAC_MODE := PyNone,
        ATTR_HVAC_MODE := PyNone,
        ATTR_CTL_TARGET_TEMPERATURE := PyNone,
        ATTR_TARGET_TEMPERATURE := PyNone,
        ATTR_CTL_TEMPERATURE_UNIT := PyStr temperature_unit,
        ATTR_TEMPERATURE_UNIT := PyStr temperature_unit)"

definition setup_platform :: "string \<Rightarrow> string \<Rightarrow> string \<Rightarrow> 'f monitor" where
  "setup_platform name mac temperature_unit =
     AnovaMonitor (setup_data name mac temperature_unit)"

subsection \<open>The thread \<open>run\<close> (lines 364 to 467)\<close>

text \<open>
  \<open>data[ATTR_AVAILABLE]\<close> holds one of the two booleans at all times, so its truth value
  is the comparison with \<open>True\<close>. The block of lines 372 to 374 stands a second time at
  lines 457 to 459.
\<close>

definition mark_unavailable :: "'f monitor \<Rightarrow> 'f monitor" where
  "mark_unavailable m =
     (if data m ATTR_AVAILABLE = PyBool True
      then data_handler (store ATTR_AVAILABLE (PyBool False) m)
      else m)"

text \<open>Lines 401 to 409.\<close>

definition update_available :: "'f monitor \<Rightarrow> 'f monitor" where
  "update_available m =
     (let available =
        (data m ATTR_CURRENT_TEMPERATURE \<noteq> PyNone
         \<and> data m ATTR_TARGET_TEMPERATURE \<noteq> PyNone
         \<and> data m ATTR_TEMPERATURE_UNIT \<noteq> PyNone)
      in if data m ATTR_AVAILABLE \<noteq> PyBool True \<and> available
         then data_handler (store ATTR_AVAILABLE (PyBool True) m)
         else m)"

text \<open>The statements after a call that may raise run only when it returns.\<close>

definition and_then :: "'a result \<Rightarrow> ('a \<Rightarrow> 'a) \<Rightarrow> 'a result" where
  "and_then res f = (case res of Returns m \<Rightarrow> Returns (f m) | Raises e m \<Rightarrow> Raises e m)"

text \<open>
  Lines 411 to 441: one pass through the \<open>if\<close>/\<open>elif\<close> chain. In the last branch the
  thread goes on to lines 442 and 443, which are steps of their own below.
\<close>

definition dispatch ::
  "('f pyval \<Rightarrow> string) \<Rightarrow> (string \<Rightarrow> 'f option) \<Rightarrow> reply \<Rightarrow> 'f monitor
    \<Rightarrow> 'f monitor result" where
  "dispatch str_of float_of r m =
     (if data m ATTR_CTL_TEMPERATURE_UNIT \<noteq> PyNone then
        and_then
          (set_temperature_unit
             (if data m ATTR_CTL_TEMPERATURE_UNIT = PyStr TEMP_CELSIUS
              then ANOVA_TEMP_CELCIUS else ANOVA_TEMP_FAHRENHEIT) r m)
          (store ATTR_CTL_TEMPERATURE_UNIT PyNone)
      else if data m ATTR_CTL_TARGET_TEMPERATURE \<noteq> PyNone then
        and_then
          (set_target_temperature str_of (data m ATTR_CTL_TARGET_TEMPERATURE) r m)
          (store ATTR_CTL_TARGET_TEMPERATURE PyNone)
      else if data m ATTR_CTL_HVAC_MODE \<noteq> PyNone then
        and_then
          (send_start (data m ATTR_CTL_HVAC_MODE = PyStr HVAC_MODE_HEAT) r m)
          (store ATTR_CTL_HVAC_MODE PyNone)
      else if next_command m = MON_GET_TEMPERATURE_UNIT then
        and_then (get_temperature_unit r m) (\<lambda>m'. m'\<lparr>next_command := MON_GET_STATUS\<rparr>)
      else if next_command m = MON_GET_STATUS then
        and_then (get_status r m) (\<lambda>m'. m'\<lparr>next_command := MON_GET_CURRENT_TEMPERATURE\<rparr>)
      else if next_command m = MON_GET_CURRENT_TEMPERATURE then
        and_then (get_current_temperature float_of r m)
          (\<lambda>m'. m'\<lparr>next_command := MON_GET_TARGET_TEMPERATURE\<rparr>)
      else if next_command m = MON_GET_TARGET_TEMPERATURE then
        and_then (get_target_temperature float_of r m) (\<lambda>m'. m'\<lparr>next_command := MON_IDLE\<rparr>)
      else Returns (m\<lparr>next_command := MON_GET_STATUS, pc := At_clear\<rparr>))"

text \<open>The body of the inner loop, lines 401 to 441.\<close>

definition iteration ::
  "('f pyval \<Rightarrow> string) \<Rightarrow> (string \<Rightarrow> 'f option) \<Rightarrow> reply \<Rightarrow> 'f monitor
    \<Rightarrow> 'f monitor result" where
  "iteration str_of float_of r m = dispatch str_of float_of r (update_available m)"

text \<open>The \<open>except\<close> clauses, lines 445 to 455.\<close>

definition handle_exception :: "exc \<Rightarrow> 'f monitor \<Rightarrow> 'f monitor" where
  "handle_exception e m =
     (case e of
        ExceptionPexpect \<Rightarrow> m\<lparr>keep_going := False, device := False\<rparr>
      | NotConnectedError \<Rightarrow> logger Error m
      | NotificationTimeout \<Rightarrow> logger Error m
      | RuntimeError \<Rightarrow> logger Error m
      | OtherException \<Rightarrow> logger Warn m)"

text \<open>The \<open>finally\<close> block, lines 456 to 467.\<close>

definition finally_block :: "reply \<Rightarrow> 'f monitor \<Rightarrow> 'f monitor" where
  "finally_block r m =
     (let m1 = mark_unavailable m in
      if device m1 then
        (case device_request Dev_disconnect r (\<lambda>rsp m'. m') m1 of
           Returns m2 \<Rightarrow> m2
         | Raises e m2 \<Rightarrow> logger Debug m2)
      else m1)"

text \<open>Lines 372 to 398: one pass from the test of the outer loop to the inner loop.\<close>

definition connect :: "reply \<Rightarrow> 'f monitor \<Rightarrow> 'f monitor" where
  "connect r m =
     (case device_request Dev_connect_device r (\<lambda>rsp m'. m')
             (logger Debug (mark_unavailable m)) of
        Returns m1 \<Rightarrow>
          (logger Debug m1)\<lparr>next_command := MON_GET_TEMPERATURE_UNIT, pc := At_inner\<rparr>
      | Raises e m1 \<Rightarrow> (handle_exception e m1)\<lparr>pc := At_finally False\<rparr>)"

text \<open>
  One step of the thread. Each step holds at most one call of the device client, whose
  outcome is the argument \<open>r\<close>. A step in \<open>command_event.wait\<close> goes on when the event is
  set and stays where it is otherwise.
\<close>

definition run_step ::
  "('f pyval \<Rightarrow> string) \<Rightarrow> (string \<Rightarrow> 'f option) \<Rightarrow> reply \<Rightarrow> 'f monitor \<Rightarrow> 'f monitor" where
  "run_step str_of float_of r m =
     (case pc m of
        At_start \<Rightarrow> m\<lparr>device := True, pc := At_outer\<rparr>
      | At_outer \<Rightarrow> if keep_going m then connect r m else m\<lparr>pc := Exited\<rparr>
      | At_inner \<Rightarrow>
          if keep_going m then
            (case iteration str_of float_of r m of
               Returns m1 \<Rightarrow> m1
             | Raises e m1 \<Rightarrow> (handle_exception e m1)\<lparr>pc := At_finally False\<rparr>)
          else m\<lparr>pc := At_finally True\<rparr>
      | At_clear \<Rightarrow> m\<lparr>command_event := False, pc := At_wait\<rparr>
      | At_wait \<Rightarrow> if command_event m then m\<lparr>pc := At_inner\<rparr> else m
      | At_finally brk \<Rightarrow> (finally_block r m)\<lparr>pc := (if brk then Exited else At_outer)\<rparr>
      | Exited \<Rightarrow> m)"

text \<open>The polling cycle of \<open>command_event.wait(self.polling_cycle)\<close> runs out.\<close>

definition wait_timeout :: "'f monitor \<Rightarrow> 'f monitor" where
  "wait_timeout m = (if pc m = At_wait then m\<lparr>pc := At_inner\<rparr> else m)"

text \<open>
  What can happen next: the thread takes a step, the wait times out, or another thread
  calls one of the public methods. A run is a list of these.
\<close>

datatype 'f action =
  Worker reply
  | Timeout
  | Request_hvac_mode string
  | Request_temperature 'f
  | Request_temperature_unit string
  | Terminate

fun step ::
  "('f pyval \<Rightarrow> string) \<Rightarrow> (string \<Rightarrow> 'f option) \<Rightarrow> 'f action \<Rightarrow> 'f monitor \<Rightarrow> 'f monitor" where
  "step str_of float_of (Worker r) m = run_step str_of float_of r m"
| "step str_of float_of Timeout m = wait_timeout m"
| "step str_of float_of (Request_hvac_mode h) m = request_set_hvac_mode h m"
| "step str_of float_of (Request_temperature t) m = request_set_temperature t m"
| "step str_of float_of (Request_temperature_unit u) m = request_set_temperature_unit u m"
| "step str_of float_of Terminate m = terminate m"

fun exec ::
  "('f pyval \<Rightarrow> string) \<Rightarrow> (string \<Rightarrow> 'f option) \<Rightarrow> 'f action list \<Rightarrow> 'f monitor
    \<Rightarrow> 'f monitor" where
  "exec str_of float_of [] m = m"
| "exec str_of float_of (a # as) m = exec str_of float_of as (step str_of float_of a m)"

subsection \<open>Reading a trace\<close>

text \<open>The device calls among a list of events, in their order.\<close>

fun calls :: "'f event list \<Rightarrow> 'f device_call list" where
  "calls [] = []"
| "calls (Call c # es) = c # calls es"
| "calls (e # es) = calls es"

text \<open>The events that happened between an earlier state and a later one.\<close>

definition new_events :: "'f monitor \<Rightarrow> 'f monitor \<Rightarrow> 'f event list" where
  "new_events m m' = drop (length (trace m)) (trace m')"

definition state_of :: "'a result \<Rightarrow> 'a" where
  "state_of res = (case res of Returns m \<Rightarrow> m | Raises e m \<Rightarrow> m)"

subsection \<open>Notions of the specification\<close>

text \<open>
  The pending fields in the order of their priority, those that hold a command, and those
  that held one in an earlier state and are cleared in a later one.
\<close>

definition pending_keys :: "string list" where
  "pending_keys =
     [ATTR_CTL_TEMPERATURE_UNIT, ATTR_CTL_TARGET_TEMPERATURE, ATTR_CTL_HVAC_MODE]"

definition pending :: "'f monitor \<Rightarrow> string list" where
  "pending m = filter (\<lambda>k. data m k \<noteq> PyNone) pending_keys"

definition consumed :: "'f monitor \<Rightarrow> 'f monitor \<Rightarrow> string list" where
  "consumed m m' = filter (\<lambda>k. data m k \<noteq> PyNone \<and> data m' k = PyNone) pending_keys"

text \<open>
  The device call that executes the command held by a pending field (set the unit, set the
  target temperature, start if the mode is heat and stop otherwise), and the device call of
  a step of the poll sequence (none when the sequence has reached the idle step).
\<close>

definition command_for :: "string \<Rightarrow> 'f pyval \<Rightarrow> 'f device_call" where
  "command_for k v =
     (if k = ATTR_CTL_TEMPERATURE_UNIT then
        Dev_set_unit
          (if v = PyStr TEMP_CELSIUS then ANOVA_TEMP_CELCIUS else ANOVA_TEMP_FAHRENHEIT)
      else if k = ATTR_CTL_TARGET_TEMPERATURE then Dev_set_temperature v
      else if v = PyStr HVAC_MODE_HEAT then Dev_start_anova
      else Dev_stop_anova)"

definition poll_calls :: "nat \<Rightarrow> 'f device_call list" where
  "poll_calls n =
     (if n = MON_GET_TEMPERATURE_UNIT then [Dev_get_unit]
      else if n = MON_GET_STATUS then [Dev_get_status]
      else if n = MON_GET_CURRENT_TEMPERATURE then [Dev_get_current_temperature]
      else if n = MON_GET_TARGET_TEMPERATURE then [Dev_get_target_temperature]
      else [])"

text \<open>The device call that an iteration makes in a given state, if any.\<close>

definition chosen_call :: "'f monitor \<Rightarrow> 'f device_call list" where
  "chosen_call m =
     (case pending m of
        k # ks \<Rightarrow> [command_for k (data m k)]
      | [] \<Rightarrow> poll_calls (next_command m))"

text \<open>
  The exception that a step of the thread catches: the one its device call raises, when
  the step makes a call (a connection attempt, or an iteration that is not at the idle
  step).
\<close>

definition step_fault :: "'f monitor \<Rightarrow> reply \<Rightarrow> exc option" where
  "step_fault m r =
     (case r of
        Reply rsp \<Rightarrow> None
      | Fault e \<Rightarrow>
          if keep_going m \<and> (pc m = At_outer \<or> (pc m = At_inner \<and> chosen_call m \<noteq> []))
          then Some e else None)"

text \<open>The three readings that \<open>available\<close> stands for are known.\<close>

definition readings_known :: "'f monitor \<Rightarrow> bool" where
  "readings_known m =
     (data m ATTR_CURRENT_TEMPERATURE \<noteq> PyNone
      \<and> data m ATTR_TARGET_TEMPERATURE \<noteq> PyNone
      \<and> data m ATTR_TEMPERATURE_UNIT \<noteq> PyNone)"

subsection \<open>Concrete inputs\<close>

text \<open>
  A monitor as \<open>setup_platform\<close> creates it, and the two builtins on the few values that
  the examples below use.
\<close>

definition example_monitor :: "real monitor" where
  "example_monitor = setup_platform ''Anova'' ''00:11:22:33:44:55'' TEMP_CELSIUS"

definition example_float :: "string \<Rightarrow> real option" where
  "example_float s =
     (if s = ''20.0'' then Some 20
      else if s = ''60.0'' then Some 60
      else if s = ''72.5'' then Some 72.5
      else None)"

definition example_str :: "real pyval \<Rightarrow> string" where
  "example_str v =
     (if v = PyFloat 20 then ''20.0''
      else if v = PyFloat 60 then ''60.0''
      else if v = PyFloat 72.5 then ''72.5''
      else ''None'')"

text \<open>
  A session of the thread on the example monitor: start, connect, send the pending unit,
  poll unit, status, current and target temperature, and the iteration at the idle step,
  in which \<open>available\<close> becomes true.
\<close>

definition example_session :: "real action list" where
  "example_session =
     [Worker (Reply []), Worker (Reply []), Worker (Reply ''c''), Worker (Reply ''c''),
      Worker (Reply ''running''), Worker (Reply ''20.0''), Worker (Reply ''60.0''),
      Worker (Reply [])]"

section \<open>Basic facts\<close>

text \<open>The ten keys of \<open>data\<close> are ten different strings.\<close>

lemma keys_distinct [simp]:
  "CONF_NAME \<noteq> CONF_MAC"
  "CONF_NAME \<noteq> ATTR_AVAILABLE"
  "CONF_NAME \<noteq> ATTR_CURRENT_TEMPERATURE"
  "CONF_NAME \<noteq> ATTR_CTL_HVAC_MODE"
  "CONF_NAME \<noteq> ATTR_HVAC_MODE"
  "CONF_NAME \<noteq> ATTR_CTL_TARGET_TEMPERATURE"
  "CONF_NAME \<noteq> ATTR_TARGET_TEMPERATURE"
  "CONF_NAME \<noteq> ATTR_CTL_TEMPERATURE_UNIT"
  "CONF_NAME \<noteq> CONF_TEMPERATURE_UNIT"
  "CONF_MAC \<noteq> CONF_NAME"
  "CONF_MAC \<noteq> ATTR_AVAILABLE"
  "CONF_MAC \<noteq> ATTR_CURRENT_TEMPERATURE"
  "CONF_MAC \<noteq> ATTR_CTL_HVAC_MODE"
  "CONF_MAC \<noteq> ATTR_HVAC_MODE"
  "CONF_MAC \<noteq> ATTR_CTL_TARGET_TEMPERATURE"
  "CONF_MAC \<noteq> ATTR_TARGET_TEMPERATURE"
  "CONF_MAC \<noteq> ATTR_CTL_TEMPERATURE_UNIT"
  "CONF_MAC \<noteq> CONF_TEMPERATURE_UNIT"
  "ATTR_AVAILABLE \<noteq> CONF_NAME"
  "ATTR_AVAILABLE \<noteq> CONF_MAC"
  "ATTR_AVAILABLE \<noteq> ATTR_CURRENT_TEMPERATURE"
  "ATTR_AVAILABLE \<noteq> ATTR_CTL_HVAC_MODE"
  "ATTR_AVAILABLE \<noteq> ATTR_HVAC_MODE"
  "ATTR_AVAILABLE \<noteq> ATTR_CTL_TARGET_TEMPERATURE"
  "ATTR_AVAILABLE \<noteq> ATTR_TARGET_TEMPERATURE"
  "ATTR_AVAILABLE \<noteq> ATTR_CTL_TEMPERATURE_UNIT"
  "ATTR_AVAILABLE \<noteq> CONF_TEMPERATURE_UNIT"
  "ATTR_CURRENT_TEMPERATURE \<noteq> CONF_NAME"
  "ATTR_CURRENT_TEMPERATURE \<noteq> CONF_MAC"
  "ATTR_CURRENT_TEMPERATURE \<noteq> ATTR_AVAILABLE"
  "ATTR_CURRENT_TEMPERATURE \<noteq> ATTR_CTL_HVAC_MODE"
  "ATTR_CURRENT_TEMPERATURE \<noteq> ATTR_HVAC_MODE"
  "ATTR_CURRENT_TEMPERATURE \<noteq> ATTR_CTL_TARGET_TEMPERATURE"
  "ATTR_CURRENT_TEMPERATURE \<noteq> ATTR_TARGET_TEMPERATURE"
  "ATTR_CURRENT_TEMPERATURE \<noteq> ATTR_CTL_TEMPERATURE_UNIT"
  "ATTR_CURRENT_TEMPERATURE \<noteq> CONF_TEMPERATURE_UNIT"
  "ATTR_CTL_HVAC_MODE \<noteq> CONF_NAME"
  "ATTR_CTL_HVAC_MODE \<noteq> CONF_MAC"
  "ATTR_CTL_HVAC_MODE \<noteq> ATTR_AVAILABLE"
  "ATTR_CTL_HVAC_MODE \<noteq> ATTR_CURRENT_TEMPERATURE"
  "ATTR_CTL_HVAC_MODE \<noteq> ATTR_HVAC_MODE"
  "ATTR_CTL_HVAC_MODE \<noteq> ATTR_CTL_TARGET_TEMPERATURE"
  "ATTR_CTL_HVAC_MODE \<noteq> ATTR_TARGET_TEMPERATURE"
  "ATTR_CTL_HVAC_MODE \<noteq> ATTR_CTL_TEMPERATURE_UNIT"
  "ATTR_CTL_HVAC_MODE \<noteq> CONF_TEMPERATURE_UNIT"
  "ATTR_HVAC_MODE \<noteq> CONF_NAME"
  "ATTR_HVAC_MODE \<noteq> CONF_MAC"
  "ATTR_HVAC_MODE \<noteq> ATTR_AVAILABLE"
  "ATTR_HVAC_MODE \<noteq> ATTR_CURRENT_TEMPERATURE"
  "ATTR_HVAC_MODE \<noteq> ATTR_CTL_HVAC_MODE"
  "ATTR_HVAC_MODE \<noteq> ATTR_CTL_TARGET_TEMPERATURE"
  "ATTR_HVAC_MODE \<noteq> ATTR_TARGET_TEMPERATURE"
  "ATTR_HVAC_MODE \<noteq> ATTR_CTL_TEMPERATURE_UNIT"
  "ATTR_HVAC_MODE \<noteq> CONF_TEMPERATURE_UNIT"
  "ATTR_CTL_TARGET_TEMPERATURE \<noteq> CONF_NAME"
  "ATTR_CTL_TARGET_TEMPERATURE \<noteq> CONF_MAC"
  "ATTR_CTL_TARGET_TEMPERATURE \<noteq> ATTR_AVAILABLE"
  "ATTR_CTL_TARGET_TEMPERATURE \<noteq> ATTR_CURRENT_TEMPERATURE"
  "ATTR_CTL_TARGET_TEMPERATURE \<noteq> ATTR_CTL_HVAC_MODE"
  "ATTR_CTL_TARGET_TEMPERATURE \<noteq> ATTR_HVAC_MODE"
  "ATTR_CTL_TARGET_TEMPERATURE \<noteq> ATTR_TARGET_TEMPERATURE"
  "ATTR_CTL_TARGET_TEMPERATURE \<noteq> ATTR_CTL_TEMPERATURE_UNIT"
  "ATTR_CTL_TARGET_TEMPERATURE \<noteq> CONF_TEMPERATURE_UNIT"
  "ATTR_TARGET_TEMPERATURE \<noteq> CONF_NAME"
  "ATTR_TARGET_TEMPERATURE \<noteq> CONF_MAC"
  "ATTR_TARGET_TEMPERATURE \<noteq> ATTR_AVAILABLE"
  "ATTR_TARGET_TEMPERATURE \<noteq> ATTR_CURRENT_TEMPERATURE"
  "ATTR_TARGET_TEMPERATURE \<noteq> ATTR_CTL_HVAC_MODE"
  "ATTR_TARGET_TEMPERATURE \<noteq> ATTR_HVAC_MODE"
  "ATTR_TARGET_TEMPERATURE \<noteq> ATTR_CTL_TARGET_TEMPERATURE"
  "ATTR_TARGET_TEMPERATURE \<noteq> ATTR_CTL_TEMPERATURE_UNIT"
  "ATTR_TARGET_TEMPERATURE \<noteq> CONF_TEMPERATURE_UNIT"
  "ATTR_CTL_TEMPERATURE_UNIT \<noteq> CONF_NAME"
  "ATTR_CTL_TEMPERATURE_UNIT \<noteq> CONF_MAC"
  "ATTR_CTL_TEMPERATURE_UNIT \<noteq> ATTR_AVAILABLE"
  "ATTR_CTL_TEMPERATURE_UNIT \<noteq> ATTR_CURRENT_TEMPERATURE"
  "ATTR_CTL_TEMPERATURE_UNIT \<noteq> ATTR_CTL_HVAC_MODE"
  "ATTR_CTL_TEMPERATURE_UNIT \<noteq> ATTR_HVAC_MODE"
  "ATTR_CTL_TEMPERATURE_UNIT \<noteq> ATTR_CTL_TARGET_TEMPERATURE"
  "ATTR_CTL_TEMPERATURE_UNIT \<noteq> ATTR_TARGET_TEMPERATURE"
  "ATTR_CTL_TEMPERATURE_UNIT \<noteq> CONF_TEMPERATURE_UNIT"
  "CONF_TEMPERATURE_UNIT \<noteq> CONF_NAME"
  "CONF_TEMPERATURE_UNIT \<noteq> CONF_MAC"
  "CONF_TEMPERATURE_UNIT \<noteq> ATTR_AVAILABLE"
  "CONF_TEMPERATURE_UNIT \<noteq> ATTR_CURRENT_TEMPERATURE"
  "CONF_TEMPERATURE_UNIT \<noteq> ATTR_CTL_HVAC_MODE"
  "CONF_TEMPERATURE_UNIT \<noteq> ATTR_HVAC_MODE"
  "CONF_TEMPERATURE_UNIT \<noteq> ATTR_CTL_TARGET_TEMPERATURE"
  "CONF_TEMPERATURE_UNIT \<noteq> ATTR_TARGET_TEMPERATURE"
  "CONF_TEMPERATURE_UNIT \<noteq> ATTR_CTL_TEMPERATURE_UNIT"
  by (simp_all add: key_defs)

text \<open>What the elementary operations do to each attribute.\<close>

lemma data_handler_sel [simp]:
  "data (data_handler m) = data m"
  "keep_going (data_handler m) = keep_going m"
  "command_event (data_handler m) = command_event m"
  "device (data_handler m) = device m"
  "next_command (data_handler m) = next_command m"
  "pc (data_handler m) = pc m"
  "trace (data_handler m) = trace m @ [Notify]"
  by (simp_all add: data_handler_def)

lemma logger_sel [simp]:
  "data (logger l m) = data m"
  "keep_going (logger l m) = keep_going m"
  "command_event (logger l m) = command_event m"
  "device (logger l m) = device m"
  "next_command (logger l m) = next_command m"
  "pc (logger l m) = pc m"
  "trace (logger l m) = trace m @ [Log l]"
  by (simp_all add: logger_def)

lemma store_sel [simp]:
  "data (store k v m) = (data m)(k := v)"
  "keep_going (store k v m) = keep_going m"
  "command_event (store k v m) = command_event m"
  "device (store k v m) = device m"
  "next_command (store k v m) = next_command m"
  "pc (store k v m) = pc m"
  "trace (store k v m) = trace m"
  by (simp_all add: store_def)

lemma process_response_sel [simp]:
  "data (process_response v key m) = (if v = PyNone then data m else (data m)(key := v))"
  "keep_going (process_response v key m) = keep_going m"
  "command_event (process_response v key m) = command_event m"
  "device (process_response v key m) = device m"
  "next_command (process_response v key m) = next_command m"
  "pc (process_response v key m) = pc m"
  "trace (process_response v key m) =
     trace m @ (if v = PyNone then [Log Warn]
                else if v \<noteq> data m key \<and> ((data m)(key := v)) ATTR_AVAILABLE = PyBool True
                then [Notify] else [])"
  by (auto simp add: process_response_def Let_def)

lemma device_request_simps [simp]:
  "device_request c (Reply rsp) rest m = Returns (rest rsp (m\<lparr>trace := trace m @ [Call c]\<rparr>))"
  "device_request c (Fault e) rest m = Raises e (m\<lparr>trace := trace m @ [Call c]\<rparr>)"
  by (simp_all add: device_request_def)

lemma and_then_simps [simp]:
  "and_then (Returns m) f = Returns (f m)"
  "and_then (Raises e m) f = Raises e m"
  by (simp_all add: and_then_def)

lemma state_of_simps [simp]:
  "state_of (Returns m) = m"
  "state_of (Raises e m) = m"
  by (simp_all add: state_of_def)

lemmas method_defs =
  get_temperature_unit_def set_temperature_unit_def get_status_def
  get_current_temperature_def get_target_temperature_def send_start_def
  set_target_temperature_def

lemma update_available_sel [simp]:
  "data (update_available m) k =
     (if k = ATTR_AVAILABLE \<and> data m ATTR_AVAILABLE \<noteq> PyBool True
         \<and> data m ATTR_CURRENT_TEMPERATURE \<noteq> PyNone
         \<and> data m ATTR_TARGET_TEMPERATURE \<noteq> PyNone \<and> data m ATTR_TEMPERATURE_UNIT \<noteq> PyNone
      then PyBool True else data m k)"
  "keep_going (update_available m) = keep_going m"
  "command_event (update_available m) = command_event m"
  "device (update_available m) = device m"
  "next_command (update_available m) = next_command m"
  "pc (update_available m) = pc m"
  "trace (update_available m) =
     trace m @
     (if data m ATTR_AVAILABLE \<noteq> PyBool True \<and> data m ATTR_CURRENT_TEMPERATURE \<noteq> PyNone
         \<and> data m ATTR_TARGET_TEMPERATURE \<noteq> PyNone \<and> data m ATTR_TEMPERATURE_UNIT \<noteq> PyNone
      then [Notify] else [])"
  by (simp_all add: update_available_def Let_def)

lemma mark_unavailable_sel [simp]:
  "data (mark_unavailable m) k =
     (if k = ATTR_AVAILABLE \<and> data m ATTR_AVAILABLE = PyBool True then PyBool False
      else data m k)"
  "keep_going (mark_unavailable m) = keep_going m"
  "command_event (mark_unavailable m) = command_event m"
  "device (mark_unavailable m) = device m"
  "next_command (mark_unavailable m) = next_command m"
  "pc (mark_unavailable m) = pc m"
  "trace (mark_unavailable m) =
     trace m @ (if data m ATTR_AVAILABLE = PyBool True then [Notify] else [])"
  by (simp_all add: mark_unavailable_def)

lemma handle_exception_sel [simp]:
  "data (handle_exception e m) = data m"
  "keep_going (handle_exception e m) = (keep_going m \<and> e \<noteq> ExceptionPexpect)"
  "command_event (handle_exception e m) = command_event m"
  "device (handle_exception e m) = (device m \<and> e \<noteq> ExceptionPexpect)"
  "next_command (handle_exception e m) = next_command m"
  "pc (handle_exception e m) = pc m"
  "trace (handle_exception e m) =
     trace m @ (case e of ExceptionPexpect \<Rightarrow> [] | OtherException \<Rightarrow> [Log Warn]
                | _ \<Rightarrow> [Log Error])"
  by (cases e; simp add: handle_exception_def)+

lemma finally_block_sel [simp]:
  "data (finally_block r m) k = data (mark_unavailable m) k"
  "keep_going (finally_block r m) = keep_going m"
  "command_event (finally_block r m) = command_event m"
  "device (finally_block r m) = device m"
  "next_command (finally_block r m) = next_command m"
  "pc (finally_block r m) = pc m"
  "trace (finally_block r m) =
     trace (mark_unavailable m) @
     (if device m
      then Call Dev_disconnect # (case r of Reply rsp \<Rightarrow> [] | Fault e \<Rightarrow> [Log Debug])
      else [])"
  by (cases r; simp add: finally_block_def Let_def)+

lemma calls_append [simp]: "calls (xs @ ys) = calls xs @ calls ys"
  by (induction xs rule: calls.induct) simp_all

text \<open>The monitor that \<open>setup_platform\<close> creates, attribute by attribute.\<close>

lemma setup_platform_sel [simp]:
  "data (setup_platform name mac u) ATTR_CURRENT_TEMPERATURE = PyNone"
  "data (setup_platform name mac u) ATTR_TARGET_TEMPERATURE = PyNone"
  "data (setup_platform name mac u) ATTR_HVAC_MODE = PyNone"
  "data (setup_platform name mac u) ATTR_CTL_TARGET_TEMPERATURE = PyNone"
  "data (setup_platform name mac u) ATTR_CTL_HVAC_MODE = PyNone"
  "data (setup_platform name mac u) ATTR_AVAILABLE = PyBool False"
  "data (setup_platform name mac u) ATTR_TEMPERATURE_UNIT = PyStr u"
  "data (setup_platform name mac u) ATTR_CTL_TEMPERATURE_UNIT = PyStr u"
  "data (setup_platform name mac u) ATTR_NAME = PyStr name"
  "data (setup_platform name mac u) ATTR_MAC = PyStr mac"
  "keep_going (setup_platform name mac u)"
  "\<not> command_event (setup_platform name mac u)"
  "\<not> device (setup_platform name mac u)"
  "next_command (setup_platform name mac u) = 0"
  "pc (setup_platform name mac u) = At_start"
  "trace (setup_platform name mac u) = []"
  by (simp_all add: setup_platform_def AnovaMonitor_def setup_data_def)

text \<open>The branch that a pass through the \<open>if\<close>/\<open>elif\<close> chain takes.\<close>

lemma dispatch_cases
  [case_names set_unit set_temperature send_start get_unit get_status get_current get_target idle]:
  obtains
    "data m ATTR_CTL_TEMPERATURE_UNIT \<noteq> PyNone"
    "dispatch s f r m =
       and_then
         (set_temperature_unit
            (if data m ATTR_CTL_TEMPERATURE_UNIT = PyStr TEMP_CELSIUS
             then ANOVA_TEMP_CELCIUS else ANOVA_TEMP_FAHRENHEIT) r m)
         (store ATTR_CTL_TEMPERATURE_UNIT PyNone)"
  | "data m ATTR_CTL_TEMPERATURE_UNIT = PyNone"
    "data m ATTR_CTL_TARGET_TEMPERATURE \<noteq> PyNone"
    "dispatch s f r m =
       and_then (set_target_temperature s (data m ATTR_CTL_TARGET_TEMPERATURE) r m)
         (store ATTR_CTL_TARGET_TEMPERATURE PyNone)"
  | "data m ATTR_CTL_TEMPERATURE_UNIT = PyNone"
    "data m ATTR_CTL_TARGET_TEMPERATURE = PyNone"
    "data m ATTR_CTL_HVAC_MODE \<noteq> PyNone"
    "dispatch s f r m =
       and_then (send_start (data m ATTR_CTL_HVAC_MODE = PyStr HVAC_MODE_HEAT) r m)
         (store ATTR_CTL_HVAC_MODE PyNone)"
  | "data m ATTR_CTL_TEMPERATURE_UNIT = PyNone"
    "data m ATTR_CTL_TARGET_TEMPERATURE = PyNone"
    "data m ATTR_CTL_HVAC_MODE = PyNone"
    "next_command m = MON_GET_TEMPERATURE_UNIT"
    "dispatch s f r m =
       and_then (get_temperature_unit r m) (\<lambda>m'. m'\<lparr>next_command := MON_GET_STATUS\<rparr>)"
  | "data m ATTR_CTL_TEMPERATURE_UNIT = PyNone"
    "data m ATTR_CTL_TARGET_TEMPERATURE = PyNone"
    "data m ATTR_CTL_HVAC_MODE = PyNone"
    "next_command m = MON_GET_STATUS"
    "dispatch s f r m =
       and_then (get_status r m) (\<lambda>m'. m'\<lparr>next_command := MON_GET_CURRENT_TEMPERATURE\<rparr>)"
  | "data m ATTR_CTL_TEMPERATURE_UNIT = PyNone"
    "data m ATTR_CTL_TARGET_TEMPERATURE = PyNone"
    "data m ATTR_CTL_HVAC_MODE = PyNone"
    "next_command m = MON_GET_CURRENT_TEMPERATURE"
    "dispatch s f r m =
       and_then (get_current_temperature f r m)
         (\<lambda>m'. m'\<lparr>next_command := MON_GET_TARGET_TEMPERATURE\<rparr>)"
  | "data m ATTR_CTL_TEMPERATURE_UNIT = PyNone"
    "data m ATTR_CTL_TARGET_TEMPERATURE = PyNone"
    "data m ATTR_CTL_HVAC_MODE = PyNone"
    "next_command m = MON_GET_TARGET_TEMPERATURE"
    "dispatch s f r m =
       and_then (get_target_temperature f r m) (\<lambda>m'. m'\<lparr>next_command := MON_IDLE\<rparr>)"
  | "data m ATTR_CTL_TEMPERATURE_UNIT = PyNone"
    "data m ATTR_CTL_TARGET_TEMPERATURE = PyNone"
    "data m ATTR_CTL_HVAC_MODE = PyNone"
    "next_command m \<noteq> MON_GET_TEMPERATURE_UNIT"
    "next_command m \<noteq> MON_GET_STATUS"
    "next_command m \<noteq> MON_GET_CURRENT_TEMPERATURE"
    "next_command m \<noteq> MON_GET_TARGET_TEMPERATURE"
    "dispatch s f r m = Returns (m\<lparr>next_command := MON_GET_STATUS, pc := At_clear\<rparr>)"
  by atomize_elim (simp add: dispatch_def)



lemma iteration_calls:
  "calls (new_events m (state_of (iteration s f r m))) =
     (case pending m of k # ks \<Rightarrow> [command_for k (data m k)] | [] \<Rightarrow> poll_calls (next_command m))"
  unfolding iteration_def
  by (rule dispatch_cases[where m="update_available m" and s=s and f=f and r=r]; cases r)
     (simp_all add: method_defs new_events_def pending_def
        pending_keys_def command_for_def poll_calls_def mon_defs)

lemma iteration_consumed:
  "consumed m (state_of (iteration s f r m)) =
     (case iteration s f r m of Returns m' \<Rightarrow> take 1 (pending m) | Raises e m' \<Rightarrow> [])"
  unfolding iteration_def
  by (rule dispatch_cases[where m="update_available m" and s=s and f=f and r=r]; cases r)
     (simp_all add:  method_defs consumed_def pending_def
        pending_keys_def)

lemma iteration_pc:
  "pc (state_of (iteration s f r m)) = (if chosen_call m = [] then At_clear else pc m)"
  unfolding iteration_def
  by (rule dispatch_cases[where m="update_available m" and s=s and f=f and r=r]; cases r)
     (simp_all add: method_defs chosen_call_def pending_def pending_keys_def poll_calls_def
        mon_defs)


lemma request_sel [simp]:
  "data (request_set_hvac_mode h m) =
     (data m)(ATTR_CTL_HVAC_MODE := PyStr h, ATTR_HVAC_MODE := PyStr h)"
  "trace (request_set_hvac_mode h m) = trace m @ [Notify]"
  "command_event (request_set_hvac_mode h m)"
  "keep_going (request_set_hvac_mode h m) = keep_going m"
  "device (request_set_hvac_mode h m) = device m"
  "next_command (request_set_hvac_mode h m) = next_command m"
  "pc (request_set_hvac_mode h m) = pc m"
  "data (request_set_temperature t m) =
     (data m)(ATTR_CTL_TARGET_TEMPERATURE := PyFloat t, ATTR_TARGET_TEMPERATURE := PyFloat t)"
  "trace (request_set_temperature t m) = trace m @ [Notify]"
  "command_event (request_set_temperature t m)"
  "keep_going (request_set_temperature t m) = keep_going m"
  "device (request_set_temperature t m) = device m"
  "next_command (request_set_temperature t m) = next_command m"
  "pc (request_set_temperature t m) = pc m"
  by (simp_all add: request_set_hvac_mode_def request_set_temperature_def)

lemma request_unit_sel [simp]:
  "data (request_set_temperature_unit u m) =
     (if PyStr u \<noteq> data m CONF_TEMPERATURE_UNIT
      then (data m)(ATTR_CTL_TEMPERATURE_UNIT := PyStr u, ATTR_TEMPERATURE_UNIT := PyStr u)
      else data m)"
  "trace (request_set_temperature_unit u m) =
     trace m @ (if PyStr u \<noteq> data m CONF_TEMPERATURE_UNIT then [Notify] else [])"
  "command_event (request_set_temperature_unit u m) =
     (PyStr u \<noteq> data m CONF_TEMPERATURE_UNIT \<or> command_event m)"
  "keep_going (request_set_temperature_unit u m) = keep_going m"
  "device (request_set_temperature_unit u m) = device m"
  "next_command (request_set_temperature_unit u m) = next_command m"
  "pc (request_set_temperature_unit u m) = pc m"
  by (simp_all add: request_set_temperature_unit_def)

lemma dispatch_notify:
  "Notify \<in> set (new_events m (state_of (dispatch s f r m))) \<Longrightarrow>
     data m ATTR_AVAILABLE = PyBool True"
  by (rule dispatch_cases[where m=m and s=s and f=f and r=r]; cases r)
     (simp_all add: method_defs new_events_def split: if_splits)

text \<open>What an iteration and a step of the thread keep and change.\<close>

lemma chosen_call_update_available [simp]:
  "chosen_call (update_available m) = chosen_call m"
  by (simp add: chosen_call_def pending_def pending_keys_def)

lemma iteration_keeps:
  "k \<notin> set pending_keys \<Longrightarrow> data m k \<noteq> PyNone \<Longrightarrow>
     data (state_of (iteration s f r m)) k \<noteq> PyNone"
  unfolding iteration_def
  by (rule dispatch_cases[where m="update_available m" and s=s and f=f and r=r]; cases r)
     (auto simp add: method_defs pending_keys_def)

lemma iteration_available:
  "data (state_of (iteration s f r m)) ATTR_AVAILABLE = data (update_available m) ATTR_AVAILABLE"
  unfolding iteration_def
  by (rule dispatch_cases[where m="update_available m" and s=s and f=f and r=r]; cases r)
     (simp_all add: method_defs)

lemma iteration_control:
  "keep_going (state_of (iteration s f r m)) = keep_going m"
  "device (state_of (iteration s f r m)) = device m"
  "command_event (state_of (iteration s f r m)) = command_event m"
  unfolding iteration_def
  by (rule dispatch_cases[where m="update_available m" and s=s and f=f and r=r]; cases r;
      simp add: method_defs)+

lemma iteration_Fault:
  "iteration s f (Fault e) m =
     (if chosen_call m = []
      then Returns ((update_available m)\<lparr>next_command := MON_GET_STATUS, pc := At_clear\<rparr>)
      else Raises e ((update_available m)
             \<lparr>trace := trace (update_available m) @ map Call (chosen_call m)\<rparr>))"
  unfolding iteration_def
  by (rule dispatch_cases[where m="update_available m" and s=s and f=f and r="Fault e"])
     (simp_all add: method_defs chosen_call_def pending_def pending_keys_def command_for_def
        poll_calls_def mon_defs del: update_available_sel(7))

lemma iteration_Raises:
  "iteration s f r m = Raises e m' \<Longrightarrow> r = Fault e \<and> chosen_call m \<noteq> []"
  unfolding iteration_def
  by (rule dispatch_cases[where m="update_available m" and s=s and f=f and r=r]; cases r)
     (simp_all add: method_defs chosen_call_def pending_def pending_keys_def
        poll_calls_def mon_defs)

lemma iteration_trace:
  "trace (state_of (iteration s f r m)) = trace m @ new_events m (state_of (iteration s f r m))"
  unfolding iteration_def
  by (rule dispatch_cases[where m="update_available m" and s=s and f=f and r=r]; cases r)
     (simp_all add: method_defs new_events_def)


lemma connect_sel [simp]:
  "data (connect r m) k = data (mark_unavailable m) k"
  "keep_going (connect r m) = (keep_going m \<and> r \<noteq> Fault ExceptionPexpect)"
  "command_event (connect r m) = command_event m"
  "device (connect r m) = (device m \<and> r \<noteq> Fault ExceptionPexpect)"
  "pc (connect r m) = (case r of Reply rsp \<Rightarrow> At_inner | Fault e \<Rightarrow> At_finally False)"
  "trace (connect r m) =
     trace (mark_unavailable m) @ [Log Debug, Call Dev_connect_device]
     @ (case r of Reply rsp \<Rightarrow> [Log Debug]
        | Fault e \<Rightarrow> (case e of ExceptionPexpect \<Rightarrow> [] | OtherException \<Rightarrow> [Log Warn]
                      | _ \<Rightarrow> [Log Error]))"
  by (cases r; simp add: connect_def)+

lemma connect_next_command [simp]:
  "next_command (connect (Reply rsp) m) = MON_GET_TEMPERATURE_UNIT"
  by (simp add: connect_def)

lemma run_step_keeps:
  assumes "k \<notin> set pending_keys" "data m k \<noteq> PyNone"
  shows "data (run_step s f r m) k \<noteq> PyNone"
proof (cases "pc m")
  case At_inner
  show ?thesis
  proof (cases "iteration s f r m")
    case (Returns m1)
    with iteration_keeps[OF assms, of s f r] At_inner assms(2) show ?thesis
      by (simp add: run_step_def)
  next
    case (Raises e m1)
    with iteration_keeps[OF assms, of s f r] At_inner assms(2) show ?thesis
      by (simp add: run_step_def)
  qed
qed (use assms in \<open>simp_all add: run_step_def\<close>)

lemma run_step_available:
  "data (run_step s f r m) ATTR_AVAILABLE =
     (case pc m of
        At_outer \<Rightarrow> if keep_going m then data (mark_unavailable m) ATTR_AVAILABLE
                    else data m ATTR_AVAILABLE
      | At_inner \<Rightarrow> if keep_going m then data (update_available m) ATTR_AVAILABLE
                    else data m ATTR_AVAILABLE
      | At_finally brk \<Rightarrow> data (mark_unavailable m) ATTR_AVAILABLE
      | _ \<Rightarrow> data m ATTR_AVAILABLE)"
proof (cases "pc m")
  case At_inner
  show ?thesis
  proof (cases "iteration s f r m")
    case (Returns m1)
    with iteration_available[of s f r m] At_inner show ?thesis
      by (simp add: run_step_def del: update_available_sel)
  next
    case (Raises e m1)
    with iteration_available[of s f r m] At_inner show ?thesis
      by (simp add: run_step_def del: update_available_sel)
  qed
qed (simp_all add: run_step_def)

lemma step_keeps:
  assumes "k \<notin> set pending_keys" "data m k \<noteq> PyNone"
  shows "data (step s f a m) k \<noteq> PyNone"
  using assms run_step_keeps[OF assms, of s f]
  by (cases a) (auto simp add: wait_timeout_def terminate_def pending_keys_def)

lemma exec_keeps:
  "k \<notin> set pending_keys \<Longrightarrow> data m k \<noteq> PyNone \<Longrightarrow> data (exec s f as m) k \<noteq> PyNone"
  by (induction as arbitrary: m) (simp_all add: step_keeps)

lemma step_available:
  "data (step s f a m) ATTR_AVAILABLE =
     (case a of
        Worker r \<Rightarrow>
          (case pc m of
             At_outer \<Rightarrow> if keep_going m then data (mark_unavailable m) ATTR_AVAILABLE
                         else data m ATTR_AVAILABLE
           | At_inner \<Rightarrow> if keep_going m then data (update_available m) ATTR_AVAILABLE
                         else data m ATTR_AVAILABLE
           | At_finally brk \<Rightarrow> data (mark_unavailable m) ATTR_AVAILABLE
           | _ \<Rightarrow> data m ATTR_AVAILABLE)
      | _ \<Rightarrow> data m ATTR_AVAILABLE)"
  by (cases a) (simp_all add: run_step_available wait_timeout_def terminate_def)

lemma step_invariant:
  assumes "data m ATTR_AVAILABLE = PyBool True \<longrightarrow> readings_known m"
  shows "data (step s f a m) ATTR_AVAILABLE = PyBool True \<longrightarrow> readings_known (step s f a m)"
proof
  assume av: "data (step s f a m) ATTR_AVAILABLE = PyBool True"
  have "readings_known m"
    using av assms unfolding step_available
    by (auto simp add: readings_known_def split: action.splits label.splits if_splits)
  then show "readings_known (step s f a m)"
    unfolding readings_known_def
    using step_keeps[where s=s and f=f and a=a and m=m and k=ATTR_CURRENT_TEMPERATURE]
      step_keeps[where s=s and f=f and a=a and m=m and k=ATTR_TARGET_TEMPERATURE]
      step_keeps[where s=s and f=f and a=a and m=m and k=ATTR_TEMPERATURE_UNIT]
    by (simp add: pending_keys_def)
qed

lemma exec_invariant:
  "(data m ATTR_AVAILABLE = PyBool True \<longrightarrow> readings_known m) \<Longrightarrow>
   (data (exec s f as m) ATTR_AVAILABLE = PyBool True \<longrightarrow> readings_known (exec s f as m))"
  by (induction as arbitrary: m) (simp_all add: step_invariant)

text \<open>One step of the thread: where it goes, what it calls, what it keeps.\<close>

lemma iteration_pending_data:
  "k \<in> set pending_keys \<Longrightarrow>
     data (state_of (iteration s f r m)) k =
       (if (\<exists>rsp. r = Reply rsp) \<and> take 1 (pending m) = [k] then PyNone else data m k)"
  unfolding iteration_def
  by (rule dispatch_cases[where m="update_available m" and s=s and f=f and r=r]; cases r)
     (auto simp add: method_defs pending_def pending_keys_def)

lemma iteration_calls':
  "calls (new_events m (state_of (iteration s f r m))) = chosen_call m"
  by (simp add: iteration_calls chosen_call_def)

lemma run_step_inner:
  "pc m = At_inner \<Longrightarrow> keep_going m \<Longrightarrow>
     run_step s f r m =
       (case step_fault m r of
          None \<Rightarrow> state_of (iteration s f r m)
        | Some e \<Rightarrow> (handle_exception e (state_of (iteration s f r m)))\<lparr>pc := At_finally False\<rparr>)"
proof (cases r)
  case (Reply rsp)
  then show "pc m = At_inner \<Longrightarrow> keep_going m \<Longrightarrow> ?thesis"
    using iteration_Raises[of s f "Reply rsp" m]
    by (cases "iteration s f (Reply rsp) m") (simp_all add: run_step_def step_fault_def)
next
  case (Fault e)
  then show "pc m = At_inner \<Longrightarrow> keep_going m \<Longrightarrow> ?thesis"
    by (simp add: run_step_def step_fault_def iteration_Fault)
qed

lemma run_step_pc:
  "pc (run_step s f r m) =
     (case pc m of
        At_start \<Rightarrow> At_outer
      | At_outer \<Rightarrow>
          if keep_going m
          then (if step_fault m r = None then At_inner else At_finally False)
          else Exited
      | At_inner \<Rightarrow>
          if keep_going m
          then (if step_fault m r \<noteq> None then At_finally False
                else if chosen_call m = [] then At_clear else At_inner)
          else At_finally True
      | At_clear \<Rightarrow> At_wait
      | At_wait \<Rightarrow> if command_event m then At_inner else At_wait
      | At_finally brk \<Rightarrow> if brk then Exited else At_outer
      | Exited \<Rightarrow> Exited)"
proof (cases "pc m")
  case At_inner
  then show ?thesis
    by (cases "keep_going m")
       (auto simp add: run_step_inner iteration_pc split: option.splits,
        simp_all add: run_step_def)
next
  case At_outer
  then show ?thesis
    by (cases r) (simp_all add: run_step_def step_fault_def)
qed (simp_all add: run_step_def)

lemma run_step_keep_going:
  "keep_going (run_step s f r m) =
     (keep_going m \<and> step_fault m r \<noteq> Some ExceptionPexpect)"
proof (cases "pc m")
  case At_inner
  then show ?thesis
    by (cases "keep_going m")
       (auto simp add: run_step_inner iteration_control split: option.splits,
        simp_all add: run_step_def step_fault_def split: reply.splits)
next
  case At_outer
  then show ?thesis
    by (cases r) (auto simp add: run_step_def step_fault_def)
qed (simp_all add: run_step_def step_fault_def split: reply.splits)

lemma run_step_device:
  "device (run_step s f r m) =
     (pc m = At_start \<or> (device m \<and> step_fault m r \<noteq> Some ExceptionPexpect))"
proof (cases "pc m")
  case At_inner
  then show ?thesis
    by (cases "keep_going m")
       (auto simp add: run_step_inner iteration_control split: option.splits,
        simp_all add: run_step_def step_fault_def split: reply.splits)
next
  case At_outer
  then show ?thesis
    by (cases r) (auto simp add: run_step_def step_fault_def)
qed (simp_all add: run_step_def step_fault_def split: reply.splits)

lemma trace_prefixI: "trace m' = trace m @ es \<Longrightarrow> trace m' = trace m @ new_events m m'"
  by (simp add: new_events_def)

lemma run_step_events: "\<exists>es. trace (run_step s f r m) = trace m @ es"
proof (cases "pc m")
  case At_inner
  obtain es where es: "trace (state_of (iteration s f r m)) = trace m @ es"
    using iteration_trace by blast
  with At_inner show ?thesis
    by (cases "keep_going m")
       (auto simp add: run_step_inner split: option.splits, simp_all add: run_step_def)
qed (simp_all add: run_step_def)

lemma run_step_trace:
  "trace (run_step s f r m) = trace m @ new_events m (run_step s f r m)"
  using run_step_events[of s f r m] trace_prefixI by blast

lemma run_step_calls:
  "calls (new_events m (run_step s f r m)) =
     (case pc m of
        At_outer \<Rightarrow> if keep_going m then [Dev_connect_device] else []
      | At_inner \<Rightarrow> if keep_going m then chosen_call m else []
      | At_finally brk \<Rightarrow> if device m then [Dev_disconnect] else []
      | _ \<Rightarrow> [])"
proof (cases "pc m")
  case At_inner
  obtain es where es: "trace (state_of (iteration s f r m)) = trace m @ es"
    using iteration_trace by blast
  then have c: "calls es = chosen_call m"
    using iteration_calls'[of m s f r] by (simp add: new_events_def)
  have "calls (new_events m (handle_exception e (state_of (iteration s f r m))\<lparr>pc := At_finally False\<rparr>))
      = chosen_call m" for e
    using es c by (cases e) (simp_all add: new_events_def)
  with At_inner es c show ?thesis
    by (cases "keep_going m")
       (auto simp add: run_step_inner iteration_calls' split: option.splits,
        simp_all add: run_step_def new_events_def)
next
  case At_outer
  then show ?thesis
    by (cases r; cases "keep_going m")
       (auto simp add: run_step_def new_events_def split: exc.splits)
next
  case (At_finally brk)
  then show ?thesis
    by (cases r) (simp_all add: run_step_def new_events_def)
qed (simp_all add: run_step_def new_events_def)

lemma run_step_pending_data:
  "k \<in> set pending_keys \<Longrightarrow>
     data (run_step s f r m) k =
       (if pc m = At_inner \<and> keep_going m \<and> (\<exists>rsp. r = Reply rsp) \<and> take 1 (pending m) = [k]
        then PyNone else data m k)"
proof (cases "pc m")
  case At_inner
  then show "k \<in> set pending_keys \<Longrightarrow> ?thesis"
    by (cases "keep_going m")
       (auto simp add: run_step_inner iteration_pending_data split: option.splits,
        simp_all add: run_step_def step_fault_def)
qed (auto simp add: run_step_def pending_keys_def)

text \<open>Pending commands across steps, and the events of consecutive steps.\<close>

lemma pending_cong:
  "(\<And>k. k \<in> set pending_keys \<Longrightarrow> data m' k = data m k) \<Longrightarrow> pending m' = pending m"
  by (simp add: pending_def cong: filter_cong)

lemma chosen_call_pending:
  "pending m \<noteq> [] \<Longrightarrow>
     chosen_call m = [command_for (hd (pending m)) (data m (hd (pending m)))]"
  by (cases "pending m") (simp_all add: chosen_call_def)

lemma hd_pending: "pending m \<noteq> [] \<Longrightarrow> hd (pending m) \<in> set pending_keys"
  using hd_in_set[of "pending m"] by (auto simp add: pending_def)

lemma chosen_call_cong:
  assumes "\<And>k. k \<in> set pending_keys \<Longrightarrow> data m' k = data m k" "pending m \<noteq> []"
  shows "chosen_call m' = chosen_call m"
proof -
  have p: "pending m' = pending m" using assms(1) by (rule pending_cong)
  with assms(2) hd_pending[of m] assms(1) show ?thesis
    by (simp add: chosen_call_pending)
qed

lemma new_events_trans:
  "trace m1 = trace m @ a \<Longrightarrow> trace m2 = trace m1 @ b \<Longrightarrow>
     new_events m m2 = new_events m m1 @ new_events m1 m2"
  by (simp add: new_events_def)

lemma new_events_run_step:
  "trace m1 = trace m @ a \<Longrightarrow>
     new_events m (run_step s f r m1) = new_events m m1 @ new_events m1 (run_step s f r m1)"
  using run_step_events[of s f r m1] new_events_trans by blast

lemma Dev_disconnect_not_chosen: "Dev_disconnect \<notin> set (chosen_call m)"
  by (cases "pending m")
     (simp_all add: chosen_call_def poll_calls_def command_for_def)

section \<open>The state at creation\<close>

text \<open>
  C7 (as stated, refuted). The claim lists the pending temperature unit among the fields
  that are unset at creation. \<open>setup_platform\<close> stores the host's temperature unit under
  the pending key (line 107), so the field is set.
\<close>

theorem setup_platform_pending_unit_set:
  "data (setup_platform ''Anova'' ''00:11:22:33:44:55'' TEMP_CELSIUS :: real monitor)
     ATTR_CTL_TEMPERATURE_UNIT \<noteq> PyNone"
  by simp

text \<open>
  C7 (amended). At creation the current temperature, the target temperature, the hvac mode,
  the pending target temperature and the pending hvac mode are unset and \<open>available\<close> is
  false; the temperature unit and the pending temperature unit both hold the host's
  configured unit. The thread has not started, the stop flag and the event are clear and no
  event has happened.
\<close>

theorem setup_platform_initial_state:
  "data (setup_platform name mac u) ATTR_CURRENT_TEMPERATURE = PyNone
   \<and> data (setup_platform name mac u) ATTR_TARGET_TEMPERATURE = PyNone
   \<and> data (setup_platform name mac u) ATTR_HVAC_MODE = PyNone
   \<and> data (setup_platform name mac u) ATTR_CTL_TARGET_TEMPERATURE = PyNone
   \<and> data (setup_platform name mac u) ATTR_CTL_HVAC_MODE = PyNone
   \<and> data (setup_platform name mac u) ATTR_AVAILABLE = PyBool False
   \<and> data (setup_platform name mac u) ATTR_TEMPERATURE_UNIT = PyStr u
   \<and> data (setup_platform name mac u) ATTR_CTL_TEMPERATURE_UNIT = PyStr u
   \<and> data (setup_platform name mac u) ATTR_NAME = PyStr name
   \<and> data (setup_platform name mac u) ATTR_MAC = PyStr mac
   \<and> keep_going (setup_platform name mac u)
   \<and> \<not> command_event (setup_platform name mac u)
   \<and> \<not> device (setup_platform name mac u)
   \<and> pc (setup_platform name mac u) = At_start
   \<and> trace (setup_platform name mac u) = []"
  by simp

section \<open>One action per iteration, by priority\<close>

text \<open>
  C1. An iteration of the Connected inner loop makes exactly one choice. When a pending
  field holds a command, the single device call of the iteration is the command of the
  first such field in the order unit, target temperature, hvac mode (start for heat, stop
  otherwise); when the call returns, that field and no other is cleared. Only when no field
  is pending does the iteration make the call of the current poll step, or none at the idle
  step, where the thread goes on to the wait. At most one pending field is consumed.
\<close>

theorem iteration_one_action_by_priority:
  "calls (new_events m (state_of (iteration str_of float_of r m))) =
     (case pending m of
        k # ks \<Rightarrow> [command_for k (data m k)]
      | [] \<Rightarrow> poll_calls (next_command m))
   \<and> consumed m (state_of (iteration str_of float_of r m)) =
     (case iteration str_of float_of r m of
        Returns m' \<Rightarrow> take 1 (pending m)
      | Raises e m' \<Rightarrow> [])
   \<and> pc (state_of (iteration str_of float_of r m)) =
     (if pending m = [] \<and> next_command m \<notin> {MON_GET_TEMPERATURE_UNIT, MON_GET_STATUS,
           MON_GET_CURRENT_TEMPERATURE, MON_GET_TARGET_TEMPERATURE}
      then At_clear else pc m)"
proof -
  have "chosen_call m = [] \<longleftrightarrow>
      pending m = [] \<and> next_command m \<notin> {MON_GET_TEMPERATURE_UNIT, MON_GET_STATUS,
           MON_GET_CURRENT_TEMPERATURE, MON_GET_TARGET_TEMPERATURE}"
    by (cases "pending m") (simp_all add: chosen_call_def poll_calls_def)
  then show ?thesis
    using iteration_calls[of m str_of float_of r] iteration_consumed[of m str_of float_of r]
      iteration_pc[of str_of float_of r m]
    by simp
qed


theorem iteration_one_action_by_priority_witness:
  "calls (new_events example_monitor
      (state_of (iteration example_str example_float (Reply ''c'') example_monitor)))
     = [Dev_set_unit ''c'']
   \<and> consumed example_monitor
      (state_of (iteration example_str example_float (Reply ''c'') example_monitor))
     = [ATTR_CTL_TEMPERATURE_UNIT]
   \<and> consumed example_monitor
      (state_of (iteration example_str example_float (Fault RuntimeError) example_monitor))
     = []
   \<and> calls (new_events
      (exec example_str example_float (butlast example_session) example_monitor)
      (state_of (iteration example_str example_float (Reply [])
         (exec example_str example_float (butlast example_session) example_monitor))))
     = []
   \<and> pc (state_of (iteration example_str example_float (Reply [])
         (exec example_str example_float (butlast example_session) example_monitor)))
     = At_clear"
proof -
  let ?m = "exec example_str example_float (butlast example_session) example_monitor"
  have p1: "pending example_monitor = [ATTR_CTL_TEMPERATURE_UNIT]"
    by code_simp
  have c1: "command_for ATTR_CTL_TEMPERATURE_UNIT
      (data example_monitor ATTR_CTL_TEMPERATURE_UNIT) = Dev_set_unit ''c''"
    by code_simp
  have r1: "iteration example_str example_float (Reply ''c'') example_monitor
      = Returns (state_of (iteration example_str example_float (Reply ''c'') example_monitor))"
    using iteration_Raises[of example_str example_float "Reply ''c''" example_monitor]
    by (cases "iteration example_str example_float (Reply ''c'') example_monitor") auto
  have r2: "iteration example_str example_float (Fault RuntimeError) example_monitor
      = Raises RuntimeError
          (state_of (iteration example_str example_float (Fault RuntimeError) example_monitor))"
    using p1 by (simp add: iteration_Fault chosen_call_def)
  have p2: "pending ?m = []"
    by code_simp
  have n2: "next_command ?m = MON_IDLE"
    by code_simp
  note a = iteration_one_action_by_priority
      [where m = example_monitor and str_of = example_str and float_of = example_float
         and r = "Reply ''c''"]
  note b = iteration_one_action_by_priority
      [where m = example_monitor and str_of = example_str and float_of = example_float
         and r = "Fault RuntimeError"]
  note c = iteration_one_action_by_priority
      [where m = ?m and str_of = example_str and float_of = example_float
         and r = "Reply []"]
  have 1: "calls (new_events example_monitor
      (state_of (iteration example_str example_float (Reply ''c'') example_monitor)))
     = [Dev_set_unit ''c'']"
    using a by (simp add: p1 c1)
  have 2: "consumed example_monitor
      (state_of (iteration example_str example_float (Reply ''c'') example_monitor))
     = [ATTR_CTL_TEMPERATURE_UNIT]"
    using a by (subst (asm) (2) r1) (simp add: p1)
  have 3: "consumed example_monitor
      (state_of (iteration example_str example_float (Fault RuntimeError) example_monitor))
     = []"
    using b by (subst (asm) (2) r2) simp
  have 4: "calls (new_events ?m
      (state_of (iteration example_str example_float (Reply []) ?m))) = []
     \<and> pc (state_of (iteration example_str example_float (Reply []) ?m)) = At_clear"
    using c by (simp add: p2 n2 poll_calls_def mon_defs)
  from 1 2 3 4 show ?thesis by blast
qed

section \<open>Who is notified when\<close>

text \<open>
  C4. A notification caused by a response (through \<open>process_response\<close>, for every key but
  \<open>available\<close> itself, and so for every poll or command step of the loop) fires only while
  \<open>available\<close> is true. Each \<open>request_set_*\<close> call that writes a pending field also writes
  the live field and notifies, whatever \<open>available\<close> is; a unit request that equals the
  live unit writes nothing and changes nothing.
\<close>

theorem response_notifies_only_when_available:
  "(key \<noteq> ATTR_AVAILABLE \<longrightarrow> Notify \<in> set (new_events m (process_response v key m)) \<longrightarrow>
      data m ATTR_AVAILABLE = PyBool True)
   \<and> (Notify \<in> set (new_events m (state_of (dispatch str_of float_of r m))) \<longrightarrow>
      data m ATTR_AVAILABLE = PyBool True)
   \<and> new_events m (request_set_hvac_mode h m) = [Notify]
   \<and> data (request_set_hvac_mode h m) ATTR_CTL_HVAC_MODE = PyStr h
   \<and> data (request_set_hvac_mode h m) ATTR_HVAC_MODE = PyStr h
   \<and> new_events m (request_set_temperature t m) = [Notify]
   \<and> data (request_set_temperature t m) ATTR_CTL_TARGET_TEMPERATURE = PyFloat t
   \<and> data (request_set_temperature t m) ATTR_TARGET_TEMPERATURE = PyFloat t
   \<and> (PyStr u \<noteq> data m ATTR_TEMPERATURE_UNIT \<longrightarrow>
        new_events m (request_set_temperature_unit u m) = [Notify]
        \<and> data (request_set_temperature_unit u m) ATTR_CTL_TEMPERATURE_UNIT = PyStr u
        \<and> data (request_set_temperature_unit u m) ATTR_TEMPERATURE_UNIT = PyStr u)
   \<and> (PyStr u = data m ATTR_TEMPERATURE_UNIT \<longrightarrow> request_set_temperature_unit u m = m)"
proof -
  have "key \<noteq> ATTR_AVAILABLE \<longrightarrow> Notify \<in> set (new_events m (process_response v key m)) \<longrightarrow>
      data m ATTR_AVAILABLE = PyBool True"
    by (simp add: new_events_def split: if_splits)
  moreover have "PyStr u = data m ATTR_TEMPERATURE_UNIT \<longrightarrow> request_set_temperature_unit u m = m"
    by (simp add: request_set_temperature_unit_def)
  ultimately show ?thesis
    using dispatch_notify[where m=m and s=str_of and f=float_of and r=r]
    by (simp add: new_events_def)
qed


theorem response_notifies_only_when_available_witness:
  "data example_monitor ATTR_AVAILABLE = PyBool False
   \<and> new_events example_monitor (request_set_hvac_mode HVAC_MODE_HEAT example_monitor)
     = [Notify]
   \<and> new_events example_monitor (request_set_temperature_unit TEMP_FAHRENHEIT example_monitor)
     = [Notify]
   \<and> Notify \<in> set (new_events
        (exec example_str example_float example_session example_monitor)
        (process_response (PyFloat 60) ATTR_CURRENT_TEMPERATURE
           (exec example_str example_float example_session example_monitor)))
   \<and> data (exec example_str example_float example_session example_monitor) ATTR_AVAILABLE
     = PyBool True"
proof -
  let ?m = "exec example_str example_float example_session example_monitor"
  have h1: "data example_monitor ATTR_AVAILABLE = PyBool False"
    by (simp add: example_monitor_def)
  have h2: "PyStr TEMP_FAHRENHEIT \<noteq> data example_monitor ATTR_TEMPERATURE_UNIT"
    by (simp add: example_monitor_def TEMP_CELSIUS_def TEMP_FAHRENHEIT_def)
  have h3: "Notify \<in> set (new_events ?m
      (process_response (PyFloat 60) ATTR_CURRENT_TEMPERATURE ?m))"
    by code_simp
  have h4: "ATTR_CURRENT_TEMPERATURE \<noteq> ATTR_AVAILABLE"
    by simp
  note a = response_notifies_only_when_available
      [where m = example_monitor and h = HVAC_MODE_HEAT and u = TEMP_FAHRENHEIT
         and v = "PyFloat 60" and key = ATTR_CURRENT_TEMPERATURE and t = 60
         and str_of = example_str and float_of = example_float and r = "Reply []"]
  note b = response_notifies_only_when_available
      [where m = ?m and h = HVAC_MODE_HEAT and u = TEMP_FAHRENHEIT
         and v = "PyFloat 60" and key = ATTR_CURRENT_TEMPERATURE and t = 60
         and str_of = example_str and float_of = example_float and r = "Reply []"]
  from a have 1: "new_events example_monitor
      (request_set_hvac_mode HVAC_MODE_HEAT example_monitor) = [Notify]"
    by blast
  from a h2 have 2: "new_events example_monitor
      (request_set_temperature_unit TEMP_FAHRENHEIT example_monitor) = [Notify]"
    by blast
  from b h3 h4 have 3: "data ?m ATTR_AVAILABLE = PyBool True"
    by blast
  from h1 1 2 h3 3 show ?thesis by blast
qed

section \<open>Responses that are ignored\<close>

text \<open>
  C5. A response changes a field only if its value differs from the stored one (and then
  the field holds the value). A value that is not in the expected mapping, or a text that
  is not a number, becomes \<open>None\<close>: a warning is logged and nothing else happens. A value
  equal to the stored one changes nothing at all. In both cases no notification fires.
  This holds for each of the seven poll and command methods.
\<close>

theorem response_ignored_or_stored:
  "(data (process_response v key m) k \<noteq> data m k \<longrightarrow>
      k = key \<and> v \<noteq> data m key \<and> v \<noteq> PyNone \<and> data (process_response v key m) k = v)
   \<and> (v = PyNone \<longrightarrow> process_response v key m = m\<lparr>trace := trace m @ [Log Warn]\<rparr>)
   \<and> (v = data m key \<longrightarrow> v \<noteq> PyNone \<longrightarrow> process_response v key m = m)
   \<and> (vals rsp = None \<longrightarrow> handle_map rsp vals = PyNone)
   \<and> (float_of rsp = None \<longrightarrow> handle_float float_of rsp = PyNone)
   \<and> (rsp \<noteq> ANOVA_TEMP_CELCIUS \<and> rsp \<noteq> ANOVA_TEMP_FAHRENHEIT \<longrightarrow>
        get_temperature_unit (Reply rsp) m
          = Returns (m\<lparr>trace := trace m @ [Call Dev_get_unit, Log Warn]\<rparr>)
        \<and> set_temperature_unit unit (Reply rsp) m
          = Returns (m\<lparr>trace := trace m @ [Call (Dev_set_unit unit), Log Warn]\<rparr>))
   \<and> (rsp \<noteq> ANOVA_STATE_RUNNING \<and> rsp \<noteq> ANOVA_STATE_STOPPED \<longrightarrow>
        get_status (Reply rsp) m
          = Returns (m\<lparr>trace := trace m @ [Call Dev_get_status, Log Warn]\<rparr>))
   \<and> (rsp \<noteq> CTL_START \<and> rsp \<noteq> CTL_STOP \<longrightarrow>
        send_start start (Reply rsp) m
          = Returns (m\<lparr>trace := trace m
               @ [Call (if start then Dev_start_anova else Dev_stop_anova), Log Warn]\<rparr>))
   \<and> (rsp \<noteq> str_of temperature \<longrightarrow>
        set_target_temperature str_of temperature (Reply rsp) m
          = Returns (m\<lparr>trace := trace m @ [Call (Dev_set_temperature temperature), Log Warn]\<rparr>))
   \<and> (float_of rsp = None \<longrightarrow>
        get_current_temperature float_of (Reply rsp) m
          = Returns (m\<lparr>trace := trace m @ [Call Dev_get_current_temperature, Log Warn]\<rparr>)
        \<and> get_target_temperature float_of (Reply rsp) m
          = Returns (m\<lparr>trace := trace m @ [Call Dev_get_target_temperature, Log Warn]\<rparr>))"
proof -
  have a: "data (process_response v key m) k \<noteq> data m k \<longrightarrow>
      k = key \<and> v \<noteq> data m key \<and> v \<noteq> PyNone \<and> data (process_response v key m) k = v"
    by (auto split: if_splits)
  have b: "v = PyNone \<longrightarrow> process_response v key m = m\<lparr>trace := trace m @ [Log Warn]\<rparr>"
    "v = data m key \<longrightarrow> v \<noteq> PyNone \<longrightarrow> process_response v key m = m"
    by (simp_all add: process_response_def logger_def)
  have c: "vals rsp = None \<longrightarrow> handle_map rsp vals = PyNone"
    "float_of rsp = None \<longrightarrow> handle_float float_of rsp = PyNone"
    by (simp_all add: handle_map_def handle_float_def)
  have d: "rsp \<noteq> ANOVA_TEMP_CELCIUS \<and> rsp \<noteq> ANOVA_TEMP_FAHRENHEIT \<longrightarrow>
        get_temperature_unit (Reply rsp) m
          = Returns (m\<lparr>trace := trace m @ [Call Dev_get_unit, Log Warn]\<rparr>)
        \<and> set_temperature_unit unit (Reply rsp) m
          = Returns (m\<lparr>trace := trace m @ [Call (Dev_set_unit unit), Log Warn]\<rparr>)"
    by (simp add: get_temperature_unit_def set_temperature_unit_def TEMP_MAP_def
          handle_map_def process_response_def logger_def)
  have e: "rsp \<noteq> ANOVA_STATE_RUNNING \<and> rsp \<noteq> ANOVA_STATE_STOPPED \<longrightarrow>
        get_status (Reply rsp) m
          = Returns (m\<lparr>trace := trace m @ [Call Dev_get_status, Log Warn]\<rparr>)"
    by (simp add: get_status_def handle_map_def process_response_def logger_def)
  have f: "rsp \<noteq> CTL_START \<and> rsp \<noteq> CTL_STOP \<longrightarrow>
        send_start start (Reply rsp) m
          = Returns (m\<lparr>trace := trace m
               @ [Call (if start then Dev_start_anova else Dev_stop_anova), Log Warn]\<rparr>)"
    by (simp add: send_start_def CTL_MAP_def handle_map_def process_response_def logger_def)
  have g: "rsp \<noteq> str_of temperature \<longrightarrow>
        set_target_temperature str_of temperature (Reply rsp) m
          = Returns (m\<lparr>trace := trace m @ [Call (Dev_set_temperature temperature), Log Warn]\<rparr>)"
    by (simp add: set_target_temperature_def handle_map_def process_response_def logger_def)
  have h: "float_of rsp = None \<longrightarrow>
        get_current_temperature float_of (Reply rsp) m
          = Returns (m\<lparr>trace := trace m @ [Call Dev_get_current_temperature, Log Warn]\<rparr>)
        \<and> get_target_temperature float_of (Reply rsp) m
          = Returns (m\<lparr>trace := trace m @ [Call Dev_get_target_temperature, Log Warn]\<rparr>)"
    by (simp add: get_current_temperature_def get_target_temperature_def handle_float_def
          process_response_def logger_def)
  from a b c d e f g h show ?thesis by blast
qed


theorem response_ignored_or_stored_witness:
  "get_status (Reply ''paused'') example_monitor
     = Returns (example_monitor\<lparr>trace := trace example_monitor @ [Call Dev_get_status, Log Warn]\<rparr>)
   \<and> get_current_temperature example_float (Reply ''warm'') example_monitor
     = Returns (example_monitor
         \<lparr>trace := trace example_monitor @ [Call Dev_get_current_temperature, Log Warn]\<rparr>)
   \<and> process_response (PyStr TEMP_CELSIUS) CONF_TEMPERATURE_UNIT example_monitor
     = example_monitor
   \<and> data (process_response (PyFloat 20) ATTR_CURRENT_TEMPERATURE example_monitor)
        ATTR_CURRENT_TEMPERATURE = PyFloat 20"
proof -
  have d: "PyStr TEMP_CELSIUS = data example_monitor CONF_TEMPERATURE_UNIT"
    "PyStr TEMP_CELSIUS \<noteq> (PyNone :: real pyval)"
    "data (process_response (PyFloat 20) ATTR_CURRENT_TEMPERATURE example_monitor)
        ATTR_CURRENT_TEMPERATURE \<noteq> data example_monitor ATTR_CURRENT_TEMPERATURE"
    by (simp_all add: example_monitor_def)
  have f: "example_float ''warm'' = None"
    by (simp add: example_float_def)
  have p: "''paused'' \<noteq> ANOVA_STATE_RUNNING \<and> ''paused'' \<noteq> ANOVA_STATE_STOPPED"
    by (simp add: ANOVA_STATE_RUNNING_def ANOVA_STATE_STOPPED_def)
  note a = response_ignored_or_stored
      [where m = example_monitor and rsp = "''paused''" and float_of = example_float
         and v = "PyStr TEMP_CELSIUS" and key = CONF_TEMPERATURE_UNIT
         and k = CONF_TEMPERATURE_UNIT and vals = Map.empty and unit = "''c''"
         and start = True and str_of = example_str and temperature = PyNone]
  note b = response_ignored_or_stored
      [where m = example_monitor and rsp = "''warm''" and float_of = example_float
         and v = "PyFloat 20" and key = ATTR_CURRENT_TEMPERATURE
         and k = ATTR_CURRENT_TEMPERATURE and vals = Map.empty and unit = "''c''"
         and start = True and str_of = example_str and temperature = PyNone]
  from a p have 1: "get_status (Reply ''paused'') example_monitor
     = Returns (example_monitor\<lparr>trace := trace example_monitor @ [Call Dev_get_status, Log Warn]\<rparr>)"
    by blast
  from b f have 2: "get_current_temperature example_float (Reply ''warm'') example_monitor
     = Returns (example_monitor
         \<lparr>trace := trace example_monitor @ [Call Dev_get_current_temperature, Log Warn]\<rparr>)"
    by blast
  from a d(1,2) have 3: "process_response (PyStr TEMP_CELSIUS) CONF_TEMPERATURE_UNIT
      example_monitor = example_monitor"
    by blast
  from b d(3) have 4: "data (process_response (PyFloat 20) ATTR_CURRENT_TEMPERATURE
      example_monitor) ATTR_CURRENT_TEMPERATURE = PyFloat 20"
    by blast
  from 1 2 3 4 show ?thesis by blast
qed

section \<open>The round trip of a target temperature\<close>

text \<open>
  C8. \<open>request_set_temperature t\<close> writes \<open>t\<close> to the target temperature and to the
  pending field. When the thread then sends the pending value and the device echoes the
  text \<open>str t\<close>, the target temperature is \<open>t\<close> as before and nothing but the device call
  happens: no second notification. Any other echo is not recognized: a warning is logged
  and the field is left as it is. In the loop (no unit command pending) the step also
  clears the pending field.
\<close>

theorem target_temperature_round_trip:
  "data (request_set_temperature t m) ATTR_TARGET_TEMPERATURE = PyFloat t
   \<and> data (request_set_temperature t m) ATTR_CTL_TARGET_TEMPERATURE = PyFloat t
   \<and> set_target_temperature str_of (PyFloat t) (Reply (str_of (PyFloat t)))
        (request_set_temperature t m)
      = Returns ((request_set_temperature t m)
          \<lparr>trace := trace (request_set_temperature t m) @ [Call (Dev_set_temperature (PyFloat t))]\<rparr>)
   \<and> (rsp \<noteq> str_of (PyFloat t) \<longrightarrow>
        set_target_temperature str_of (PyFloat t) (Reply rsp) (request_set_temperature t m)
        = Returns ((request_set_temperature t m)
            \<lparr>trace := trace (request_set_temperature t m)
               @ [Call (Dev_set_temperature (PyFloat t)), Log Warn]\<rparr>))
   \<and> (data m ATTR_CTL_TEMPERATURE_UNIT = PyNone \<longrightarrow>
        dispatch str_of float_of (Reply (str_of (PyFloat t))) (request_set_temperature t m)
        = Returns (store ATTR_CTL_TARGET_TEMPERATURE PyNone
            ((request_set_temperature t m)
               \<lparr>trace := trace (request_set_temperature t m)
                  @ [Call (Dev_set_temperature (PyFloat t))]\<rparr>)))"
  by (simp add: set_target_temperature_def handle_map_def process_response_def logger_def
        dispatch_def)


theorem target_temperature_round_trip_witness:
  "example_str (PyFloat 72.5) = ''72.5''
   \<and> data (request_set_temperature 72.5 example_monitor) ATTR_TARGET_TEMPERATURE = PyFloat 72.5
   \<and> set_target_temperature example_str (PyFloat 72.5) (Reply ''72.5'')
        (request_set_temperature 72.5 example_monitor)
      = Returns ((request_set_temperature 72.5 example_monitor)
          \<lparr>trace := trace (request_set_temperature 72.5 example_monitor)
             @ [Call (Dev_set_temperature (PyFloat 72.5))]\<rparr>)
   \<and> set_target_temperature example_str (PyFloat 72.5) (Reply ''72.50'')
        (request_set_temperature 72.5 example_monitor)
      = Returns ((request_set_temperature 72.5 example_monitor)
          \<lparr>trace := trace (request_set_temperature 72.5 example_monitor)
             @ [Call (Dev_set_temperature (PyFloat 72.5)), Log Warn]\<rparr>)"
proof -
  have s: "example_str (PyFloat 72.5) = ''72.5''"
    by (simp add: example_str_def)
  have n: "''72.50'' \<noteq> example_str (PyFloat 72.5)"
    by (simp add: example_str_def)
  note a = target_temperature_round_trip
      [where m = example_monitor and t = "72.5" and str_of = example_str
         and rsp = "''72.50''" and float_of = example_float]
  from a have 1: "data (request_set_temperature 72.5 example_monitor)
      ATTR_TARGET_TEMPERATURE = PyFloat 72.5"
    by blast
  from a have "set_target_temperature example_str (PyFloat 72.5)
        (Reply (example_str (PyFloat 72.5))) (request_set_temperature 72.5 example_monitor)
      = Returns ((request_set_temperature 72.5 example_monitor)
          \<lparr>trace := trace (request_set_temperature 72.5 example_monitor)
             @ [Call (Dev_set_temperature (PyFloat 72.5))]\<rparr>)"
    by blast
  then have 2: "set_target_temperature example_str (PyFloat 72.5) (Reply ''72.5'')
        (request_set_temperature 72.5 example_monitor)
      = Returns ((request_set_temperature 72.5 example_monitor)
          \<lparr>trace := trace (request_set_temperature 72.5 example_monitor)
             @ [Call (Dev_set_temperature (PyFloat 72.5))]\<rparr>)"
    unfolding s .
  from a n have 3: "set_target_temperature example_str (PyFloat 72.5) (Reply ''72.50'')
        (request_set_temperature 72.5 example_monitor)
      = Returns ((request_set_temperature 72.5 example_monitor)
          \<lparr>trace := trace (request_set_temperature 72.5 example_monitor)
             @ [Call (Dev_set_temperature (PyFloat 72.5)), Log Warn]\<rparr>)"
    by blast
  from s 1 2 3 show ?thesis by blast
qed

section \<open>The flag \<open>available\<close>\<close>

text \<open>
  C2 (as stated, refuted). The claim makes \<open>available\<close> equivalent to the three readings
  being known. In the example session the readings are obtained and \<open>available\<close> becomes
  true; then a poll fails, the \<open>finally\<close> block sets \<open>available\<close> to false and notifies
  the observer, and the three readings are still there.
\<close>

theorem available_false_with_readings_known:
  "data (exec example_str example_float
          (example_session
           @ [Worker (Reply []), Timeout, Worker (Fault NotConnectedError), Worker (Reply [])])
          example_monitor) ATTR_AVAILABLE = PyBool False
   \<and> readings_known (exec example_str example_float
          (example_session
           @ [Worker (Reply []), Timeout, Worker (Fault NotConnectedError), Worker (Reply [])])
          example_monitor)
   \<and> new_events
        (exec example_str example_float
          (example_session @ [Worker (Reply []), Timeout, Worker (Fault NotConnectedError)])
          example_monitor)
        (exec example_str example_float
          (example_session
           @ [Worker (Reply []), Timeout, Worker (Fault NotConnectedError), Worker (Reply [])])
          example_monitor)
      = [Notify, Call Dev_disconnect]"
  by code_simp

text \<open>
  C2 (amended). In every run from the state at creation, under any interleaving of thread
  steps, timeouts and requests, \<open>available\<close> is true only if the current temperature, the
  target temperature and the unit are all known (the converse does not hold: the flag
  stays false from a teardown until the next iteration of the inner loop). The flag is
  written in two blocks only, lines 401 to 409 and lines 372 to 374 (repeated at 457 to
  459): each write is a transition and is followed by exactly one notification, and a
  block that does not change the flag does nothing. A step changes the flag only through
  these blocks.
\<close>

theorem available_only_when_readings_known:
  "(data (exec str_of float_of as (setup_platform name mac u)) ATTR_AVAILABLE = PyBool True \<longrightarrow>
      readings_known (exec str_of float_of as (setup_platform name mac u)))
   \<and> (data (update_available m) ATTR_AVAILABLE \<noteq> data m ATTR_AVAILABLE \<longrightarrow>
        new_events m (update_available m) = [Notify]
        \<and> data (update_available m) ATTR_AVAILABLE = PyBool True \<and> readings_known m)
   \<and> (data (update_available m) ATTR_AVAILABLE = data m ATTR_AVAILABLE \<longrightarrow>
        update_available m = m)
   \<and> (data (mark_unavailable m) ATTR_AVAILABLE \<noteq> data m ATTR_AVAILABLE \<longrightarrow>
        new_events m (mark_unavailable m) = [Notify]
        \<and> data (mark_unavailable m) ATTR_AVAILABLE = PyBool False)
   \<and> (data (mark_unavailable m) ATTR_AVAILABLE = data m ATTR_AVAILABLE \<longrightarrow>
        mark_unavailable m = m)
   \<and> data (step str_of float_of a m) ATTR_AVAILABLE =
       (case a of
          Worker r \<Rightarrow>
            (case pc m of
               At_outer \<Rightarrow> if keep_going m then data (mark_unavailable m) ATTR_AVAILABLE
                           else data m ATTR_AVAILABLE
             | At_inner \<Rightarrow> if keep_going m then data (update_available m) ATTR_AVAILABLE
                           else data m ATTR_AVAILABLE
             | At_finally brk \<Rightarrow> data (mark_unavailable m) ATTR_AVAILABLE
             | _ \<Rightarrow> data m ATTR_AVAILABLE)
        | _ \<Rightarrow> data m ATTR_AVAILABLE)"
proof -
  have 1: "data (exec str_of float_of as (setup_platform name mac u)) ATTR_AVAILABLE = PyBool True
      \<longrightarrow> readings_known (exec str_of float_of as (setup_platform name mac u))"
    by (rule exec_invariant) simp
  have 2: "data (update_available m) ATTR_AVAILABLE \<noteq> data m ATTR_AVAILABLE \<longrightarrow>
        new_events m (update_available m) = [Notify]
        \<and> data (update_available m) ATTR_AVAILABLE = PyBool True \<and> readings_known m"
    by (simp add: new_events_def readings_known_def)
  have 3: "data (update_available m) ATTR_AVAILABLE = data m ATTR_AVAILABLE \<longrightarrow>
        update_available m = m"
    by (auto simp add: update_available_def Let_def data_handler_def store_def)
  have 4: "data (mark_unavailable m) ATTR_AVAILABLE \<noteq> data m ATTR_AVAILABLE \<longrightarrow>
        new_events m (mark_unavailable m) = [Notify]
        \<and> data (mark_unavailable m) ATTR_AVAILABLE = PyBool False"
    by (simp add: new_events_def)
  have 5: "data (mark_unavailable m) ATTR_AVAILABLE = data m ATTR_AVAILABLE \<longrightarrow>
        mark_unavailable m = m"
    by (auto simp add: mark_unavailable_def data_handler_def store_def)
  from 1 2 3 4 5 step_available[of str_of float_of a m] show ?thesis
    by blast
qed


theorem available_only_when_readings_known_witness:
  "data (exec example_str example_float example_session example_monitor) ATTR_AVAILABLE
     = PyBool True
   \<and> readings_known (exec example_str example_float example_session example_monitor)
   \<and> new_events (exec example_str example_float (butlast example_session) example_monitor)
        (update_available
           (exec example_str example_float (butlast example_session) example_monitor))
      = [Notify]
   \<and> new_events (exec example_str example_float example_session example_monitor)
        (mark_unavailable (exec example_str example_float example_session example_monitor))
      = [Notify]"
proof -
  let ?m1 = "exec example_str example_float (butlast example_session) example_monitor"
  let ?m2 = "exec example_str example_float example_session example_monitor"
  have h1: "data ?m2 ATTR_AVAILABLE = PyBool True"
    by code_simp
  have h2: "data (update_available ?m1) ATTR_AVAILABLE \<noteq> data ?m1 ATTR_AVAILABLE"
    by code_simp
  have h3: "data (mark_unavailable ?m2) ATTR_AVAILABLE \<noteq> data ?m2 ATTR_AVAILABLE"
    by code_simp
  note a = available_only_when_readings_known
      [where str_of = example_str and float_of = example_float and as = example_session
         and name = "''Anova''" and mac = "''00:11:22:33:44:55''" and u = TEMP_CELSIUS
         and m = ?m1 and a = Timeout, folded example_monitor_def]
  note b = available_only_when_readings_known
      [where str_of = example_str and float_of = example_float and as = example_session
         and name = "''Anova''" and mac = "''00:11:22:33:44:55''" and u = TEMP_CELSIUS
         and m = ?m2 and a = Timeout, folded example_monitor_def]
  from a h1 have 1: "readings_known ?m2" by blast
  from a h2 have 2: "new_events ?m1 (update_available ?m1) = [Notify]" by blast
  from b h3 have 3: "new_events ?m2 (mark_unavailable ?m2) = [Notify]" by blast
  from h1 1 2 3 show ?thesis by blast
qed

section \<open>Readings are never emptied\<close>

text \<open>
  C10. \<open>process_response\<close> never replaces a value by \<open>None\<close>; in any run, under any
  interleaving, a current or target temperature that is known stays known. So \<open>available\<close>
  goes from true to false only in a step of the thread that starts at the test of the
  outer loop or at the \<open>finally\<close> block, never in an iteration of the inner loop or in a
  request.
\<close>

theorem confirmed_fields_never_emptied:
  "(data m k \<noteq> PyNone \<longrightarrow> data (process_response v key m) k \<noteq> PyNone)
   \<and> (k = ATTR_CURRENT_TEMPERATURE \<or> k = ATTR_TARGET_TEMPERATURE \<longrightarrow>
        data m k \<noteq> PyNone \<longrightarrow> data (exec str_of float_of as m) k \<noteq> PyNone)
   \<and> (data m ATTR_AVAILABLE = PyBool True \<longrightarrow>
        data (step str_of float_of a m) ATTR_AVAILABLE \<noteq> PyBool True \<longrightarrow>
        (\<exists>r. a = Worker r)
        \<and> (pc m = At_outer \<or> pc m = At_finally False \<or> pc m = At_finally True))"
proof -
  have 1: "data m k \<noteq> PyNone \<longrightarrow> data (process_response v key m) k \<noteq> PyNone"
    by simp
  have 2: "k = ATTR_CURRENT_TEMPERATURE \<or> k = ATTR_TARGET_TEMPERATURE \<longrightarrow>
        data m k \<noteq> PyNone \<longrightarrow> data (exec str_of float_of as m) k \<noteq> PyNone"
    using exec_keeps[where k=k and m=m and s=str_of and f=float_of and as=as]
    by (auto simp add: pending_keys_def)
  have 3: "data m ATTR_AVAILABLE = PyBool True \<longrightarrow>
        data (step str_of float_of a m) ATTR_AVAILABLE \<noteq> PyBool True \<longrightarrow>
        (\<exists>r. a = Worker r)
        \<and> (pc m = At_outer \<or> pc m = At_finally False \<or> pc m = At_finally True)"
    unfolding step_available
    by (auto split: action.splits label.splits if_splits)
  from 1 2 3 show ?thesis by blast
qed


theorem confirmed_fields_never_emptied_witness:
  "data (exec example_str example_float example_session example_monitor)
      ATTR_CURRENT_TEMPERATURE \<noteq> PyNone
   \<and> data (exec example_str example_float
        [Worker (Reply []), Timeout, Worker (Fault NotConnectedError)]
        (exec example_str example_float example_session example_monitor))
      ATTR_CURRENT_TEMPERATURE \<noteq> PyNone
   \<and> data (exec example_str example_float
        [Worker (Reply []), Timeout, Worker (Fault NotConnectedError)]
        (exec example_str example_float example_session example_monitor))
      ATTR_AVAILABLE = PyBool True
   \<and> (pc (exec example_str example_float
        [Worker (Reply []), Timeout, Worker (Fault NotConnectedError)]
        (exec example_str example_float example_session example_monitor)) = At_outer
      \<or> pc (exec example_str example_float
        [Worker (Reply []), Timeout, Worker (Fault NotConnectedError)]
        (exec example_str example_float example_session example_monitor)) = At_finally False
      \<or> pc (exec example_str example_float
        [Worker (Reply []), Timeout, Worker (Fault NotConnectedError)]
        (exec example_str example_float example_session example_monitor)) = At_finally True)"
proof -
  let ?m1 = "exec example_str example_float example_session example_monitor"
  let ?m2 = "exec example_str example_float
        [Worker (Reply []), Timeout, Worker (Fault NotConnectedError)] ?m1"
  have h1: "data ?m1 ATTR_CURRENT_TEMPERATURE \<noteq> PyNone"
    by code_simp
  have h2: "data ?m2 ATTR_AVAILABLE = PyBool True"
    by code_simp
  have h3: "data (step example_str example_float (Worker (Reply [])) ?m2) ATTR_AVAILABLE
      \<noteq> PyBool True"
    by code_simp
  note a = confirmed_fields_never_emptied
      [where str_of = example_str and float_of = example_float and m = ?m1
         and k = ATTR_CURRENT_TEMPERATURE
         and as = "[Worker (Reply []), Timeout, Worker (Fault NotConnectedError)]"
         and a = Timeout and v = PyNone and key = ATTR_CURRENT_TEMPERATURE]
  note b = confirmed_fields_never_emptied
      [where str_of = example_str and float_of = example_float and m = ?m2
         and k = ATTR_CURRENT_TEMPERATURE and as = "[]"
         and a = "Worker (Reply [])" and v = PyNone and key = ATTR_CURRENT_TEMPERATURE]
  from a h1 have 1: "data ?m2 ATTR_CURRENT_TEMPERATURE \<noteq> PyNone" by blast
  from b h2 h3 have 2: "pc ?m2 = At_outer \<or> pc ?m2 = At_finally False
      \<or> pc ?m2 = At_finally True" by blast
  from h1 h2 1 2 show ?thesis by blast
qed

section \<open>A command whose device call fails\<close>

text \<open>
  C3 (as stated, refuted). The claim says that the pending field is already cleared when
  the device call of its command raises, so that the command is not sent again. In
  \<open>run\<close> the field is cleared by the statement after the call (lines 416 and 417, 419 to
  422, 424 to 427), which an exception skips. Here the unit command of the fresh monitor
  fails with \<open>RuntimeError\<close>: the pending unit is still set, and after disconnect and
  reconnect the thread sends the same command again.
\<close>

theorem failed_command_not_cleared:
  "data (exec example_str example_float
          [Worker (Reply []), Worker (Reply []), Worker (Fault RuntimeError)]
          example_monitor) ATTR_CTL_TEMPERATURE_UNIT = PyStr TEMP_CELSIUS
   \<and> calls (trace (exec example_str example_float
          [Worker (Reply []), Worker (Reply []), Worker (Fault RuntimeError),
           Worker (Reply []), Worker (Reply []), Worker (Reply ''c'')]
          example_monitor))
       = [Dev_connect_device, Dev_set_unit ''c'', Dev_disconnect,
          Dev_connect_device, Dev_set_unit ''c'']"
  by code_simp


text \<open>
  C3 (amended). When the device call of a pending command raises an error other than
  \<open>ExceptionPexpect\<close>, the pending fields are as they were before the step: the field
  that triggered the command still holds it. The thread then disconnects and reconnects,
  and (no request arriving in between) the first iteration of the new connection sends
  the same command again.
\<close>

theorem failed_command_stays_pending:
  assumes "pc m = At_inner" and "keep_going m" and "device m" and "pending m \<noteq> []"
    and "e \<noteq> ExceptionPexpect"
  shows
    "pending (exec str_of float_of [Worker (Fault e)] m) = pending m
     \<and> data (exec str_of float_of [Worker (Fault e)] m) (hd (pending m))
         = data m (hd (pending m))
     \<and> data m (hd (pending m)) \<noteq> PyNone
     \<and> calls (new_events m (exec str_of float_of [Worker (Fault e)] m))
         = [command_for (hd (pending m)) (data m (hd (pending m)))]
     \<and> calls (new_events (exec str_of float_of [Worker (Fault e)] m)
          (exec str_of float_of [Worker (Fault e), Worker d, Worker (Reply c), Worker r] m))
         = [Dev_disconnect, Dev_connect_device,
            command_for (hd (pending m)) (data m (hd (pending m)))]"
proof -
  let ?m1 = "run_step str_of float_of (Fault e) m"
  let ?m2 = "run_step str_of float_of d ?m1"
  let ?m3 = "run_step str_of float_of (Reply c) ?m2"
  let ?m4 = "run_step str_of float_of r ?m3"
  have cc: "chosen_call m = [command_for (hd (pending m)) (data m (hd (pending m)))]"
    using assms(4) by (rule chosen_call_pending)
  have sf: "step_fault m (Fault e) = Some e"
    using assms cc by (simp add: step_fault_def)
  have pc1: "pc ?m1 = At_finally False" and kg1: "keep_going ?m1" and dv1: "device ?m1"
    using assms sf by (simp_all add: run_step_pc run_step_keep_going run_step_device)
  have d1: "\<And>k. k \<in> set pending_keys \<Longrightarrow> data ?m1 k = data m k"
    by (simp add: run_step_pending_data)
  have sf2: "step_fault ?m1 d = None"
    using pc1 by (cases d) (simp_all add: step_fault_def)
  have pc2: "pc ?m2 = At_outer" and kg2: "keep_going ?m2" and dv2: "device ?m2"
    using pc1 kg1 dv1 sf2 by (simp_all add: run_step_pc run_step_keep_going run_step_device)
  have d2: "\<And>k. k \<in> set pending_keys \<Longrightarrow> data ?m2 k = data m k"
    using pc1 d1 by (simp add: run_step_pending_data)
  have sf3: "step_fault ?m2 (Reply c) = None"
    by (simp add: step_fault_def)
  have pc3: "pc ?m3 = At_inner" and kg3: "keep_going ?m3"
    using pc2 kg2 sf3 by (simp_all add: run_step_pc run_step_keep_going)
  have d3: "\<And>k. k \<in> set pending_keys \<Longrightarrow> data ?m3 k = data m k"
    using pc2 d2 by (simp add: run_step_pending_data)
  have c1: "calls (new_events m ?m1) = chosen_call m"
    using assms by (simp add: run_step_calls)
  have c2: "calls (new_events ?m1 ?m2) = [Dev_disconnect]"
    using pc1 dv1 by (simp add: run_step_calls)
  have c3: "calls (new_events ?m2 ?m3) = [Dev_connect_device]"
    using pc2 kg2 by (simp add: run_step_calls)
  have c4: "calls (new_events ?m3 ?m4) = chosen_call m"
    using pc3 kg3 chosen_call_cong[OF d3 assms(4)] by (simp add: run_step_calls)
  obtain a where a: "trace ?m2 = trace ?m1 @ a" using run_step_events by blast
  obtain b where b: "trace ?m3 = trace ?m2 @ b" using run_step_events by blast
  have b': "trace ?m3 = trace ?m1 @ (a @ b)" using a b by simp
  have "new_events ?m1 ?m4 = new_events ?m1 ?m2 @ new_events ?m2 ?m3 @ new_events ?m3 ?m4"
    using new_events_run_step[OF b', of str_of float_of r] new_events_trans[OF a b]
    by simp
  then have c: "calls (new_events ?m1 ?m4)
      = [Dev_disconnect, Dev_connect_device] @ chosen_call m"
    using c2 c3 c4 by simp
  have n: "data m (hd (pending m)) \<noteq> PyNone"
    using hd_in_set[OF assms(4)] by (simp add: pending_def)
  show ?thesis
    using pending_cong[of ?m1 m, OF d1] d1[OF hd_pending[OF assms(4)]] n c1 c cc
    by simp
qed

theorem failed_command_stays_pending_witness:
  "pc (exec example_str example_float [Worker (Reply []), Worker (Reply [])] example_monitor)
     = At_inner
   \<and> pending (exec example_str example_float [Worker (Reply []), Worker (Reply [])]
        example_monitor) = [ATTR_CTL_TEMPERATURE_UNIT]
   \<and> calls (new_events
        (exec example_str example_float [Worker (Fault RuntimeError)]
           (exec example_str example_float [Worker (Reply []), Worker (Reply [])]
              example_monitor))
        (exec example_str example_float
           [Worker (Fault RuntimeError), Worker (Reply []), Worker (Reply []),
            Worker (Reply ''c'')]
           (exec example_str example_float [Worker (Reply []), Worker (Reply [])]
              example_monitor)))
      = [Dev_disconnect, Dev_connect_device, Dev_set_unit ''c'']"
proof -
  let ?m = "exec example_str example_float [Worker (Reply []), Worker (Reply [])]
      example_monitor"
  have h1: "pc ?m = At_inner" by code_simp
  have h2: "keep_going ?m" by code_simp
  have h3: "device ?m" by code_simp
  have h4: "pending ?m \<noteq> []" by code_simp
  have h5: "RuntimeError \<noteq> ExceptionPexpect" by simp
  have p: "pending ?m = [ATTR_CTL_TEMPERATURE_UNIT]" by code_simp
  have c: "command_for (hd (pending ?m)) (data ?m (hd (pending ?m))) = Dev_set_unit ''c''"
    by code_simp
  note a = failed_command_stays_pending
      [OF h1 h2 h3 h4 h5, where str_of = example_str and float_of = example_float
         and d = "Reply []" and c = "[]" and r = "Reply ''c''"]
  from a have "calls (new_events
        (exec example_str example_float [Worker (Fault RuntimeError)] ?m)
        (exec example_str example_float
           [Worker (Fault RuntimeError), Worker (Reply []), Worker (Reply []),
            Worker (Reply ''c'')] ?m))
      = [Dev_disconnect, Dev_connect_device,
         command_for (hd (pending ?m)) (data ?m (hd (pending ?m)))]"
    by blast
  with c h1 p show ?thesis by simp
qed


section \<open>Leaving the connected state\<close>

text \<open>
  C6 (as stated, refuted). The claim includes the unrecoverable transport fault among the
  exits on which a disconnect is attempted. The handler of \<open>ExceptionPexpect\<close> sets
  \<open>self.device = None\<close> (line 447) and the \<open>finally\<close> block disconnects only
  \<open>if self.device\<close> (line 464). In the example session a poll raises \<open>ExceptionPexpect\<close>:
  the thread exits and no disconnect was ever attempted on the connection.
\<close>

theorem no_disconnect_after_transport_died:
  "calls (trace (exec example_str example_float
      (example_session
       @ [Worker (Reply []), Timeout, Worker (Fault ExceptionPexpect), Worker (Reply []),
          Worker (Reply [])])
      example_monitor))
     = [Dev_connect_device, Dev_set_unit ''c'', Dev_get_unit, Dev_get_status,
        Dev_get_current_temperature, Dev_get_target_temperature, Dev_get_status]
   \<and> pc (exec example_str example_float
      (example_session
       @ [Worker (Reply []), Timeout, Worker (Fault ExceptionPexpect), Worker (Reply []),
          Worker (Reply [])])
      example_monitor) = Exited"
  by code_simp


text \<open>
  C6 (amended). From the inner loop of an established connection (\<open>device\<close> is set):
  when the stop flag is found cleared by \<open>terminate\<close>, the thread attempts exactly one
  disconnect and exits; when a device call raises, the thread attempts exactly one
  disconnect after any error but \<open>ExceptionPexpect\<close> and goes back to the outer loop, and
  attempts none after \<open>ExceptionPexpect\<close>, which also clears \<open>keep_going\<close>, so that the
  thread exits. An error raised by the disconnect itself adds one debug line to the log
  and changes nothing else: it is swallowed, and the thread goes on as if the disconnect
  had returned.
\<close>

theorem disconnect_once_unless_transport_died:
  assumes "pc m = At_inner" and "device m"
  shows
    "(\<not> keep_going m \<longrightarrow>
        pc (exec str_of float_of [Worker r1, Worker r2] m) = Exited
        \<and> calls (new_events m (exec str_of float_of [Worker r1, Worker r2] m))
            = [Dev_disconnect])
     \<and> (keep_going m \<longrightarrow> step_fault m r1 = Some e \<longrightarrow>
        pc (exec str_of float_of [Worker r1, Worker r2] m) = At_outer
        \<and> keep_going (exec str_of float_of [Worker r1, Worker r2] m) = (e \<noteq> ExceptionPexpect)
        \<and> calls (new_events m (exec str_of float_of [Worker r1, Worker r2] m))
            = chosen_call m @ (if e = ExceptionPexpect then [] else [Dev_disconnect])
        \<and> Dev_disconnect \<notin> set (chosen_call m))
     \<and> finally_block (Fault e') m = logger Debug (finally_block (Reply rsp) m)"
proof -
  let ?m1 = "run_step str_of float_of r1 m"
  let ?m2 = "run_step str_of float_of r2 ?m1"
  obtain a where a: "trace ?m1 = trace m @ a" using run_step_events by blast
  have ne: "new_events m ?m2 = new_events m ?m1 @ new_events ?m1 ?m2"
    using new_events_run_step[of ?m1 m "new_events m ?m1" str_of float_of r2]
      run_step_trace[of str_of float_of r1 m]
    by simp
  have 1: "\<not> keep_going m \<longrightarrow> pc ?m2 = Exited \<and> calls (new_events m ?m2) = [Dev_disconnect]"
  proof
    assume k: "\<not> keep_going m"
    have sf: "step_fault m r1 = None"
      using k by (cases r1) (simp_all add: step_fault_def)
    have pc1: "pc ?m1 = At_finally True" and dv1: "device ?m1"
      using assms k sf by (simp_all add: run_step_pc run_step_device)
    have "pc ?m2 = Exited" using pc1 by (simp add: run_step_pc)
    moreover have "calls (new_events m ?m2) = [Dev_disconnect]"
      using assms k pc1 dv1 by (simp add: ne run_step_calls)
    ultimately show "pc ?m2 = Exited \<and> calls (new_events m ?m2) = [Dev_disconnect]"
      by simp
  qed
  have 2: "keep_going m \<longrightarrow> step_fault m r1 = Some e \<longrightarrow>
        pc ?m2 = At_outer \<and> keep_going ?m2 = (e \<noteq> ExceptionPexpect)
        \<and> calls (new_events m ?m2)
            = chosen_call m @ (if e = ExceptionPexpect then [] else [Dev_disconnect])
        \<and> Dev_disconnect \<notin> set (chosen_call m)"
  proof (intro impI)
    assume k: "keep_going m" and sf: "step_fault m r1 = Some e"
    have pc1: "pc ?m1 = At_finally False" and dv1: "device ?m1 = (e \<noteq> ExceptionPexpect)"
      and kg1: "keep_going ?m1 = (e \<noteq> ExceptionPexpect)"
      using assms k sf by (simp_all add: run_step_pc run_step_device run_step_keep_going)
    have sf2: "step_fault ?m1 r2 = None"
      using pc1 by (cases r2) (simp_all add: step_fault_def)
    have "pc ?m2 = At_outer" using pc1 by (simp add: run_step_pc)
    moreover have "keep_going ?m2 = (e \<noteq> ExceptionPexpect)"
      using kg1 sf2 by (simp add: run_step_keep_going)
    moreover have "calls (new_events m ?m2)
        = chosen_call m @ (if e = ExceptionPexpect then [] else [Dev_disconnect])"
      using assms k pc1 dv1 by (simp add: ne run_step_calls)
    ultimately show "pc ?m2 = At_outer \<and> keep_going ?m2 = (e \<noteq> ExceptionPexpect)
        \<and> calls (new_events m ?m2)
            = chosen_call m @ (if e = ExceptionPexpect then [] else [Dev_disconnect])
        \<and> Dev_disconnect \<notin> set (chosen_call m)"
      using Dev_disconnect_not_chosen[of m] by simp
  qed
  have 3: "finally_block (Fault e') m = logger Debug (finally_block (Reply rsp) m)"
    using assms(2) by (simp add: finally_block_def Let_def)
  from 1 2 3 show ?thesis by simp
qed


theorem disconnect_once_unless_transport_died_witness:
  "calls (new_events
      (exec example_str example_float [Worker (Reply []), Worker (Reply [])] example_monitor)
      (exec example_str example_float [Worker (Fault RuntimeError), Worker (Reply [])]
         (exec example_str example_float [Worker (Reply []), Worker (Reply [])]
            example_monitor)))
     = [Dev_set_unit ''c'', Dev_disconnect]
   \<and> calls (new_events
      (terminate
         (exec example_str example_float [Worker (Reply []), Worker (Reply [])]
            example_monitor))
      (exec example_str example_float [Worker (Reply []), Worker (Fault OtherException)]
         (terminate
            (exec example_str example_float [Worker (Reply []), Worker (Reply [])]
               example_monitor))))
     = [Dev_disconnect]
   \<and> pc (exec example_str example_float [Worker (Reply []), Worker (Fault OtherException)]
         (terminate
            (exec example_str example_float [Worker (Reply []), Worker (Reply [])]
               example_monitor)))
     = Exited"
proof -
  let ?m = "exec example_str example_float [Worker (Reply []), Worker (Reply [])]
      example_monitor"
  have h1: "pc ?m = At_inner" "device ?m" "keep_going ?m" by code_simp+
  have h2: "pc (terminate ?m) = At_inner" "device (terminate ?m)"
      "\<not> keep_going (terminate ?m)" by code_simp+
  have f: "step_fault ?m (Fault RuntimeError) = Some RuntimeError" by code_simp
  have c: "chosen_call ?m = [Dev_set_unit ''c'']" by code_simp
  note a = disconnect_once_unless_transport_died
      [OF h1(1,2), where str_of = example_str and float_of = example_float
         and ?r1.0 = "Fault RuntimeError" and ?r2.0 = "Reply []" and e = RuntimeError
         and e' = OtherException and rsp = "[]"]
  note b = disconnect_once_unless_transport_died
      [OF h2(1,2), where str_of = example_str and float_of = example_float
         and ?r1.0 = "Reply []" and ?r2.0 = "Fault OtherException" and e = RuntimeError
         and e' = OtherException and rsp = "[]"]
  from a h1(3) f c have 1: "calls (new_events ?m
      (exec example_str example_float [Worker (Fault RuntimeError), Worker (Reply [])] ?m))
     = [Dev_set_unit ''c'', Dev_disconnect]"
    by simp
  from b h2(3) have 2: "pc (exec example_str example_float
        [Worker (Reply []), Worker (Fault OtherException)] (terminate ?m)) = Exited
      \<and> calls (new_events (terminate ?m)
          (exec example_str example_float
             [Worker (Reply []), Worker (Fault OtherException)] (terminate ?m)))
        = [Dev_disconnect]"
    by blast
  from 1 2 show ?thesis by simp
qed


section \<open>A request that arrives just before the wait\<close>

text \<open>
  C9 (the code does not do what the claim says). The claim covers a request that arrives
  between the checks of the pending fields and the entry into the wait. In the example
  session the thread has passed the checks (no field pending, poll sequence at the idle
  step) and stands before \<open>command_event.clear()\<close>. Now \<open>request_set_hvac_mode\<close> sets the
  pending mode and the event. The thread clears the event (line 442) and waits (line 443):
  the wake-up is lost. However many steps the thread is given, it stays in the wait and
  \<open>start_anova\<close> is not called; only the timeout of the polling cycle lets it go on to
  execute the command. A request that arrives when the thread is already in the wait does
  wake it: the next iteration calls \<open>start_anova\<close>.
\<close>

theorem request_before_clear_waits_for_timeout:
  "pc (exec example_str example_float example_session example_monitor) = At_clear
   \<and> pc (exec example_str example_float
        (example_session @ [Request_hvac_mode HVAC_MODE_HEAT, Worker (Reply [])])
        example_monitor) = At_wait
   \<and> \<not> command_event (exec example_str example_float
        (example_session @ [Request_hvac_mode HVAC_MODE_HEAT, Worker (Reply [])])
        example_monitor)
   \<and> data (exec example_str example_float
        (example_session @ [Request_hvac_mode HVAC_MODE_HEAT, Worker (Reply [])])
        example_monitor) ATTR_CTL_HVAC_MODE = PyStr HVAC_MODE_HEAT
   \<and> pc (exec example_str example_float
        (example_session
         @ [Request_hvac_mode HVAC_MODE_HEAT, Worker (Reply []),
            Worker (Reply ''start''), Worker (Reply ''start''), Worker (Reply ''start'')])
        example_monitor) = At_wait
   \<and> Dev_start_anova \<notin> set (calls (trace (exec example_str example_float
        (example_session
         @ [Request_hvac_mode HVAC_MODE_HEAT, Worker (Reply []),
            Worker (Reply ''start''), Worker (Reply ''start''), Worker (Reply ''start'')])
        example_monitor)))
   \<and> last (calls (trace (exec example_str example_float
        (example_session
         @ [Request_hvac_mode HVAC_MODE_HEAT, Worker (Reply []),
            Timeout, Worker (Reply ''start'')])
        example_monitor))) = Dev_start_anova
   \<and> last (calls (trace (exec example_str example_float
        (example_session
         @ [Worker (Reply []), Request_hvac_mode HVAC_MODE_HEAT,
            Worker (Reply []), Worker (Reply ''start'')])
        example_monitor))) = Dev_start_anova"
  by code_simp


end
